theory Spec2Isabelle
  imports Complex_Main "HOL-Library.Log_Nat"
begin

section \<open>Cash ledger and transfer approval of \<^verbatim>\<open>backend/server.py\<close>\<close>

text \<open>
  The server keeps its state in four MongoDB collections (\<^verbatim>\<open>db.users\<close>,
  \<^verbatim>\<open>db.sales\<close>, \<^verbatim>\<open>db.credit_payments\<close>, \<^verbatim>\<open>db.transfers\<close>) and every route
  handler reads and writes them. The embedding passes the database explicitly: a handler
  takes the database and returns its outcome, an \<^verbatim>\<open>HTTPException\<close> or the response,
  together with the database it leaves behind, so that what a failing call has already
  written stays visible.

  Conventions of the embedding:
  \<^item> a collection is the list of its documents in insertion order; \<^verbatim>\<open>find_one\<close> and
    \<^verbatim>\<open>update_one\<close> act on the first document that matches the filter;
  \<^item> Python \<^verbatim>\<open>float\<close> amounts and the BSON doubles of the database are IEEE 754
    binary64 numbers, modelled below with their rounding, their infinities and NaN;
  \<^item> \<^verbatim>\<open>uuid.uuid4()\<close> and \<^verbatim>\<open>datetime.utcnow()\<close> are inputs of the handler
    (\<open>sale_id\<close>, \<open>payment_id\<close>, \<open>transfer_id\<close>, \<open>now\<close>);
  \<^item> the fields of a document carry a prefix (\<open>u_\<close>, \<open>s_\<close>, \<open>p_\<close>, \<open>t_\<close>), since the
    source uses the keys \<^verbatim>\<open>id\<close>, \<^verbatim>\<open>status\<close>, \<^verbatim>\<open>amount\<close> in several collections.
\<close>

subsection \<open>Floating-point amounts\<close>

text \<open>
  Every amount in the source is a Python \<^verbatim>\<open>float\<close> (the pydantic models declare
  \<^verbatim>\<open>float\<close>, and \<^verbatim>\<open>$inc\<close> adds BSON doubles): an IEEE 754 binary64 number. A
  \<open>double\<close> is a finite value, given by the real number it stands for, an infinity or NaN.
  The two zeros of the format are one value here: the source only adds, negates and
  compares amounts, and none of these tells \<^verbatim>\<open>-0.0\<close> from \<^verbatim>\<open>0.0\<close>.
\<close>

datatype double = Finite real | PlusInfinity | MinusInfinity | NaN

text \<open>Every finite double is an integer multiple of \<^verbatim>\<open>2^-1074\<close>, and the finite doubles
  lie below \<^verbatim>\<open>2^1024\<close> in magnitude.\<close>

definition min_exp :: nat where
  "min_exp = 1074"

definition max_exp :: nat where
  "max_exp = 1024"

text \<open>Rounding to the nearest integer, a tie going to the even neighbour.\<close>

definition round_half_even :: "real \<Rightarrow> int" where
  "round_half_even q =
     (let f = \<lfloor>q\<rfloor>; r = q - of_int f
      in if r < 1 / 2 then f else if 1 / 2 < r then f + 1 else if even f then f else f + 1)"

text \<open>
  The double an exact result \<open>x\<close> is rounded to, in the default rounding mode (to nearest,
  ties to even). Let \<open>y\<close> be \<open>\<bar>x\<bar>\<close> in units of \<^verbatim>\<open>2^-1074\<close>. The doubles around
  \<open>\<bar>x\<bar>\<close> are \<^verbatim>\<open>2^k\<close> units apart, where \<open>k\<close> is the number of bits of \<open>\<lfloor>y\<rfloor>\<close> beyond
  53 (none for a subnormal result): \<open>y\<close> is rounded to a multiple of \<^verbatim>\<open>2^k\<close>, and a
  result of magnitude \<^verbatim>\<open>2^1024\<close> or more overflows to an infinity.
\<close>

definition round_double :: "real \<Rightarrow> double" where
  "round_double x =
     (let y = \<bar>x\<bar> * 2 ^ min_exp;
          k = nat (bitlen \<lfloor>y\<rfloor> - 53);
          m = round_half_even (y / 2 ^ k);
          r = of_int m * 2 ^ k / 2 ^ min_exp
      in if 2 ^ max_exp \<le> r then (if x < 0 then MinusInfinity else PlusInfinity)
         else Finite (if x < 0 then - r else r))"

text \<open>
  Not every \<open>Finite x\<close> is a number of the format: \<open>Finite (1 / 10)\<close> is none. The values
  the format has are the ones rounding leaves as they are, and a statement that needs an
  amount to be one of them says so with \<open>is_double\<close>.
\<close>

fun is_double :: "double \<Rightarrow> bool" where
  "is_double (Finite x) = (round_double x = Finite x)"
| "is_double PlusInfinity = True"
| "is_double MinusInfinity = True"
| "is_double NaN = True"

text \<open>
  The operations the source uses: \<^verbatim>\<open>+\<close> (in Python and in \<^verbatim>\<open>$inc\<close>), unary \<^verbatim>\<open>-\<close>,
  the literal \<^verbatim>\<open>0.0\<close>, and the comparisons \<^verbatim>\<open><\<close> and \<^verbatim>\<open>>=\<close>. A sum of finite
  doubles is the exact sum, rounded; infinities absorb, and opposite infinities add up to
  NaN. Every comparison with NaN is false.
\<close>

instantiation double :: "{plus, uminus, zero, ord}"
begin

fun plus_double :: "double \<Rightarrow> double \<Rightarrow> double" where
  "plus_double (Finite a) (Finite b) = round_double (a + b)"
| "plus_double NaN y = NaN"
| "plus_double x NaN = NaN"
| "plus_double PlusInfinity MinusInfinity = NaN"
| "plus_double MinusInfinity PlusInfinity = NaN"
| "plus_double PlusInfinity y = PlusInfinity"
| "plus_double x PlusInfinity = PlusInfinity"
| "plus_double MinusInfinity y = MinusInfinity"
| "plus_double x MinusInfinity = MinusInfinity"

fun uminus_double :: "double \<Rightarrow> double" where
  "uminus_double (Finite a) = Finite (- a)"
| "uminus_double PlusInfinity = MinusInfinity"
| "uminus_double MinusInfinity = PlusInfinity"
| "uminus_double NaN = NaN"

definition zero_double :: double where
  "zero_double = Finite 0"

fun less_double :: "double \<Rightarrow> double \<Rightarrow> bool" where
  "less_double (Finite a) (Finite b) = (a < b)"
| "less_double NaN y = False"
| "less_double x NaN = False"
| "less_double MinusInfinity MinusInfinity = False"
| "less_double MinusInfinity y = True"
| "less_double x MinusInfinity = False"
| "less_double PlusInfinity y = False"
| "less_double x PlusInfinity = True"

definition less_eq_double :: "double \<Rightarrow> double \<Rightarrow> bool" where
  "less_eq_double x y = (x < y \<or> (x = y \<and> x \<noteq> NaN))"

instance ..

end

subsection \<open>Documents and request bodies\<close>

type_synonym datetime = nat

text \<open>A document of \<^verbatim>\<open>db.users\<close>. The key \<^verbatim>\<open>cash_balance\<close> is read with
  \<^verbatim>\<open>.get("cash_balance", 0.0)\<close>, so it may be absent.\<close>

record user =
  u_id :: string
  u_name :: string
  u_email :: string
  u_password :: string
  u_role :: string
  u_cash_balance :: "double option"
  u_created_at :: datetime

text \<open>\<^verbatim>\<open>class SaleItem\<close>\<close>

record sale_item =
  product_name :: string
  quantity :: double
  unit_price :: double
  total :: double

text \<open>\<^verbatim>\<open>class SaleCreate\<close>\<close>

record sale_create =
  sc_customer_name :: string
  sc_items :: "sale_item list"
  sc_total_amount :: double
  sc_payment_type :: string
  sc_collected_by :: string
  sc_notes :: "string option"

text \<open>A document of \<^verbatim>\<open>db.sales\<close> (\<^verbatim>\<open>sale_dict\<close>, \<^verbatim>\<open>class SaleResponse\<close>).\<close>

record sale =
  s_id :: string
  s_sale_number :: string
  s_customer_name :: string
  s_items :: "sale_item list"
  s_total_amount :: double
  s_payment_type :: string
  s_collected_by :: string
  s_collected_by_name :: string
  s_status :: string
  s_paid_amount :: double
  s_notes :: "string option"
  s_created_at :: datetime

text \<open>\<^verbatim>\<open>class CreditPayment\<close>\<close>

record credit_payment =
  cp_sale_id :: string
  cp_amount :: double
  cp_collected_by :: string
  cp_notes :: "string option"

text \<open>A document of \<^verbatim>\<open>db.credit_payments\<close> (\<^verbatim>\<open>payment_dict\<close>,
  \<^verbatim>\<open>class CreditPaymentResponse\<close>).\<close>

record payment =
  p_id :: string
  p_sale_id :: string
  p_amount :: double
  p_collected_by :: string
  p_collected_by_name :: string
  p_notes :: "string option"
  p_created_at :: datetime

text \<open>\<^verbatim>\<open>class TransferRequest\<close>\<close>

record transfer_request =
  tr_to_user_id :: string
  tr_amount :: double
  tr_reason :: string

text \<open>A document of \<^verbatim>\<open>db.transfers\<close> (\<^verbatim>\<open>transfer_dict\<close>,
  \<^verbatim>\<open>class TransferResponse\<close>).\<close>

record transfer =
  t_id :: string
  t_from_user_id :: string
  t_from_user_name :: string
  t_to_user_id :: string
  t_to_user_name :: string
  t_amount :: double
  t_reason :: string
  t_status :: string
  t_created_at :: datetime
  t_approved_at :: "datetime option"

text \<open>\<^verbatim>\<open>class TransferApproval\<close>\<close>

record transfer_approval =
  action :: string

text \<open>The collections the four handlers touch.\<close>

record db =
  users :: "user list"
  sales :: "sale list"
  credit_payments :: "payment list"
  transfers :: "transfer list"

text \<open>What a handler can raise: \<^verbatim>\<open>HTTPException(status_code, detail)\<close>, and the
  \<^verbatim>\<open>TypeError\<close> of \<^verbatim>\<open>TransferResponse(**None)\<close>.\<close>

datatype error = HTTPException nat string | TypeError

subsection \<open>Collection primitives\<close>

text \<open>\<^verbatim>\<open>find_one(filter)\<close>: the first matching document, or \<^verbatim>\<open>None\<close>.\<close>

definition find_one :: "('a \<Rightarrow> bool) \<Rightarrow> 'a list \<Rightarrow> 'a option" where
  "find_one P xs = List.find P xs"

text \<open>\<^verbatim>\<open>update_one(filter, update)\<close>: the update applied to the first matching document;
  nothing happens when none matches (no upsert).\<close>

fun update_one :: "('a \<Rightarrow> bool) \<Rightarrow> ('a \<Rightarrow> 'a) \<Rightarrow> 'a list \<Rightarrow> 'a list" where
  "update_one P f [] = []"
| "update_one P f (x # xs) = (if P x then f x # xs else x # update_one P f xs)"

text \<open>\<^verbatim>\<open>insert_one(doc)\<close>\<close>

definition insert_one :: "'a \<Rightarrow> 'a list \<Rightarrow> 'a list" where
  "insert_one x xs = xs @ [x]"

text \<open>\<^verbatim>\<open>{"$inc": {"cash_balance": delta}}\<close>: adds to the field, and sets an absent field
  to \<open>delta\<close>.\<close>

definition inc_cash_balance :: "double \<Rightarrow> user \<Rightarrow> user" where
  "inc_cash_balance delta u =
     u\<lparr>u_cash_balance := Some (case u_cash_balance u of None \<Rightarrow> delta | Some b \<Rightarrow> b + delta)\<rparr>"

text \<open>\<^verbatim>\<open>user.get("cash_balance", 0.0)\<close>\<close>

definition get_cash_balance :: "user \<Rightarrow> double" where
  "get_cash_balance u = (case u_cash_balance u of None \<Rightarrow> 0 | Some b \<Rightarrow> b)"

text \<open>The balance the ledger holds for a user id: that of the document \<^verbatim>\<open>find_one\<close>
  returns for the id, and \<open>None\<close> when there is no such user.\<close>

definition balance_of :: "db \<Rightarrow> string \<Rightarrow> double option" where
  "balance_of d uid = map_option get_cash_balance (find_one (\<lambda>u. u_id u = uid) (users d))"

text \<open>The digits of \<^verbatim>\<open>f"{count:06d}"\<close>: decimal, padded with zeros to six places.\<close>

fun decimal :: "nat \<Rightarrow> string" where
  "decimal n = (if n < 10 then [char_of (48 + n)]
                else decimal (n div 10) @ [char_of (48 + n mod 10)])"

declare decimal.simps [simp del]

definition format_06d :: "nat \<Rightarrow> string" where
  "format_06d n = replicate (6 - length (decimal n)) CHR ''0'' @ decimal n"

subsection \<open>Handlers\<close>

text \<open>\<^verbatim>\<open>get_current_user\<close>: the document of the authenticated user id.\<close>

definition get_current_user :: "db \<Rightarrow> string \<Rightarrow> error + user" where
  "get_current_user d user_id =
     (case find_one (\<lambda>u. u_id u = user_id) (users d) of
        None \<Rightarrow> Inl (HTTPException 404 ''User not found'')
      | Some user \<Rightarrow> Inr user)"

text \<open>\<^verbatim>\<open>POST /sales\<close>\<close>

definition create_sale ::
  "sale_create \<Rightarrow> user \<Rightarrow> string \<Rightarrow> datetime \<Rightarrow> db \<Rightarrow> (error + sale) \<times> db" where
  "create_sale sale_data current_user sale_id now d =
     (let count = length (sales d) + 1;
          sale_number = ''SALE-'' @ format_06d count;
          sale_dict = \<lparr>
            s_id = sale_id,
            s_sale_number = sale_number,
            s_customer_name = sc_customer_name sale_data,
            s_items = sc_items sale_data,
            s_total_amount = sc_total_amount sale_data,
            s_payment_type = sc_payment_type sale_data,
            s_collected_by = u_id current_user,
            s_collected_by_name = u_name current_user,
            s_status = (if sc_payment_type sale_data = ''cash'' then ''settled'' else ''pending''),
            s_paid_amount = (if sc_payment_type sale_data = ''cash''
                             then sc_total_amount sale_data else 0),
            s_notes = sc_notes sale_data,
            s_created_at = now \<rparr>;
          d1 = d\<lparr>sales := insert_one sale_dict (sales d)\<rparr>;
          d2 = (if sc_payment_type sale_data = ''cash''
                then d1\<lparr>users := update_one (\<lambda>u. u_id u = u_id current_user)
                                   (inc_cash_balance (sc_total_amount sale_data)) (users d1)\<rparr>
                else d1)
      in (Inr sale_dict, d2))"

text \<open>\<^verbatim>\<open>POST /credit/payment\<close>\<close>

definition record_credit_payment ::
  "credit_payment \<Rightarrow> user \<Rightarrow> string \<Rightarrow> datetime \<Rightarrow> db \<Rightarrow> (error + payment) \<times> db" where
  "record_credit_payment payment_data current_user payment_id now d =
     (case find_one (\<lambda>s. s_id s = cp_sale_id payment_data) (sales d) of
        None \<Rightarrow> (Inl (HTTPException 404 ''Sale not found''), d)
      | Some sale \<Rightarrow>
          if s_payment_type sale \<noteq> ''credit''
          then (Inl (HTTPException 400 ''Sale is not a credit sale''), d)
          else
            let payment_dict = \<lparr>
                  p_id = payment_id,
                  p_sale_id = cp_sale_id payment_data,
                  p_amount = cp_amount payment_data,
                  p_collected_by = u_id current_user,
                  p_collected_by_name = u_name current_user,
                  p_notes = cp_notes payment_data,
                  p_created_at = now \<rparr>;
                d1 = d\<lparr>credit_payments := insert_one payment_dict (credit_payments d)\<rparr>;
                new_paid_amount = s_paid_amount sale + cp_amount payment_data;
                new_status = (if new_paid_amount \<ge> s_total_amount sale
                              then ''settled'' else ''partial'');
                d2 = d1\<lparr>sales := update_one (\<lambda>s. s_id s = cp_sale_id payment_data)
                        (\<lambda>s. s\<lparr>s_paid_amount := new_paid_amount, s_status := new_status\<rparr>)
                        (sales d1)\<rparr>;
                d3 = d2\<lparr>users := update_one (\<lambda>u. u_id u = u_id current_user)
                        (inc_cash_balance (cp_amount payment_data)) (users d2)\<rparr>
            in (Inr payment_dict, d3))"

text \<open>\<^verbatim>\<open>POST /transfers\<close>\<close>

definition create_transfer_request ::
  "transfer_request \<Rightarrow> user \<Rightarrow> string \<Rightarrow> datetime \<Rightarrow> db \<Rightarrow> (error + transfer) \<times> db" where
  "create_transfer_request transfer_data current_user transfer_id now d =
     (if get_cash_balance current_user < tr_amount transfer_data
      then (Inl (HTTPException 400 ''Insufficient cash balance''), d)
      else
        case find_one (\<lambda>u. u_id u = tr_to_user_id transfer_data) (users d) of
          None \<Rightarrow> (Inl (HTTPException 404 ''Recipient not found''), d)
        | Some to_user \<Rightarrow>
            let transfer_dict = \<lparr>
                  t_id = transfer_id,
                  t_from_user_id = u_id current_user,
                  t_from_user_name = u_name current_user,
                  t_to_user_id = tr_to_user_id transfer_data,
                  t_to_user_name = u_name to_user,
                  t_amount = tr_amount transfer_data,
                  t_reason = tr_reason transfer_data,
                  t_status = ''pending'',
                  t_created_at = now,
                  t_approved_at = None \<rparr>
            in (Inr transfer_dict, d\<lparr>transfers := insert_one transfer_dict (transfers d)\<rparr>))"

text \<open>\<^verbatim>\<open>POST /transfers/{transfer_id}/approve\<close>\<close>

definition approve_transfer ::
  "string \<Rightarrow> transfer_approval \<Rightarrow> user \<Rightarrow> datetime \<Rightarrow> db \<Rightarrow> (error + transfer) \<times> db" where
  "approve_transfer transfer_id approval current_user now d =
     (case find_one (\<lambda>t. t_id t = transfer_id) (transfers d) of
        None \<Rightarrow> (Inl (HTTPException 404 ''Transfer not found''), d)
      | Some transfer \<Rightarrow>
          if t_to_user_id transfer \<noteq> u_id current_user
          then (Inl (HTTPException 403 ''Only recipient can approve/reject''), d)
          else if t_status transfer \<noteq> ''pending''
          then (Inl (HTTPException 400 ''Transfer already processed''), d)
          else
            let new_status = action approval;
                d1 = d\<lparr>transfers := update_one (\<lambda>t. t_id t = transfer_id)
                        (\<lambda>t. t\<lparr>t_status := new_status @ ''d'', t_approved_at := Some now\<rparr>)
                        (transfers d)\<rparr>;
                d2 = (if action approval = ''approve''
                      then
                        let d1a = d1\<lparr>users := update_one (\<lambda>u. u_id u = t_from_user_id transfer)
                                    (inc_cash_balance (- t_amount transfer)) (users d1)\<rparr>
                        in d1a\<lparr>users := update_one (\<lambda>u. u_id u = t_to_user_id transfer)
                                    (inc_cash_balance (t_amount transfer)) (users d1a)\<rparr>
                      else d1)
            in (case find_one (\<lambda>t. t_id t = transfer_id) (transfers d2) of
                  None \<Rightarrow> (Inl TypeError, d2)
                | Some updated_transfer \<Rightarrow> (Inr updated_transfer, d2)))"

subsection \<open>Serving requests\<close>





subsection \<open>The status rule of the specification\<close>


subsection \<open>A small ledger for concrete evaluation\<close>

definition alice :: user where
  "alice = \<lparr>u_id = ''alice'', u_name = ''Alice'', u_email = ''alice@example.com'',
            u_password = ''hash-a'', u_role = ''manager'', u_cash_balance = Some (Finite 10),
            u_created_at = 1\<rparr>"

definition bob :: user where
  "bob = \<lparr>u_id = ''bob'', u_name = ''Bob'', u_email = ''bob@example.com'',
          u_password = ''hash-b'', u_role = ''manager'', u_cash_balance = Some (Finite 0),
          u_created_at = 2\<rparr>"

definition carol :: user where
  "carol = \<lparr>u_id = ''carol'', u_name = ''Carol'', u_email = ''carol@example.com'',
            u_password = ''hash-c'', u_role = ''manager'', u_cash_balance = Some (Finite 25),
            u_created_at = 3\<rparr>"

text \<open>Alice asked to hand 60 to Bob when she held at least 60; she holds 10 now.\<close>

definition t1 :: transfer where
  "t1 = \<lparr>t_id = ''t1'', t_from_user_id = ''alice'', t_from_user_name = ''Alice'',
         t_to_user_id = ''bob'', t_to_user_name = ''Bob'', t_amount = Finite 60,
         t_reason = ''float'', t_status = ''pending'', t_created_at = 4,
         t_approved_at = None\<rparr>"

text \<open>Alice asked to hand 5 to herself.\<close>

definition t2 :: transfer where
  "t2 = \<lparr>t_id = ''t2'', t_from_user_id = ''alice'', t_from_user_name = ''Alice'',
         t_to_user_id = ''alice'', t_to_user_name = ''Alice'', t_amount = Finite 5,
         t_reason = ''self'', t_status = ''pending'', t_created_at = 5,
         t_approved_at = None\<rparr>"

text \<open>A transfer from Carol that Bob has approved already.\<close>

definition t3 :: transfer where
  "t3 = \<lparr>t_id = ''t3'', t_from_user_id = ''carol'', t_from_user_name = ''Carol'',
         t_to_user_id = ''bob'', t_to_user_name = ''Bob'', t_amount = Finite 7,
         t_reason = ''change'', t_status = ''approved'', t_created_at = 6,
         t_approved_at = Some 7\<rparr>"

text \<open>A credit sale of 200, nothing paid yet, and a cash sale of 50.\<close>

definition s1 :: sale where
  "s1 = \<lparr>s_id = ''s1'', s_sale_number = ''SALE-000001'', s_customer_name = ''Dana'',
         s_items = [], s_total_amount = Finite 200, s_payment_type = ''credit'',
         s_collected_by = ''bob'', s_collected_by_name = ''Bob'', s_status = ''pending'',
         s_paid_amount = Finite 0, s_notes = None, s_created_at = 8\<rparr>"

definition s2 :: sale where
  "s2 = \<lparr>s_id = ''s2'', s_sale_number = ''SALE-000002'', s_customer_name = ''Eli'',
         s_items = [], s_total_amount = Finite 50, s_payment_type = ''cash'',
         s_collected_by = ''carol'', s_collected_by_name = ''Carol'', s_status = ''settled'',
         s_paid_amount = Finite 50, s_notes = None, s_created_at = 9\<rparr>"

definition ledger0 :: db where
  "ledger0 = \<lparr>users = [alice, bob, carol], sales = [s1, s2], credit_payments = [],
              transfers = [t1, t2, t3]\<rparr>"



text \<open>
  A second ledger, with balances at \<^verbatim>\<open>2^53\<close> = 9007199254740992, where the doubles are 2
  apart. Dora and Erin hold \<^verbatim>\<open>2^53\<close> each, Fay holds nothing. Dora asked to hand 1 to
  Erin; a transfer of 9 to Fay names a sender that has no account. On the credit sale
  \<open>s4\<close> of \<^verbatim>\<open>2^53 + 4\<close>, \<^verbatim>\<open>2^53\<close> is paid.
\<close>

definition dora :: user where
  "dora = \<lparr>u_id = ''dora'', u_name = ''Dora'', u_email = ''dora@example.com'',
           u_password = ''hash-d'', u_role = ''manager'',
           u_cash_balance = Some (Finite 9007199254740992), u_created_at = 1\<rparr>"

definition erin :: user where
  "erin = \<lparr>u_id = ''erin'', u_name = ''Erin'', u_email = ''erin@example.com'',
           u_password = ''hash-e'', u_role = ''manager'',
           u_cash_balance = Some (Finite 9007199254740992), u_created_at = 2\<rparr>"

definition fay :: user where
  "fay = \<lparr>u_id = ''fay'', u_name = ''Fay'', u_email = ''fay@example.com'',
          u_password = ''hash-f'', u_role = ''manager'', u_cash_balance = Some (Finite 0),
          u_created_at = 3\<rparr>"

definition t5 :: transfer where
  "t5 = \<lparr>t_id = ''t5'', t_from_user_id = ''dora'', t_from_user_name = ''Dora'',
         t_to_user_id = ''erin'', t_to_user_name = ''Erin'', t_amount = Finite 1,
         t_reason = ''coin'', t_status = ''pending'', t_created_at = 4,
         t_approved_at = None\<rparr>"

definition t6 :: transfer where
  "t6 = \<lparr>t_id = ''t6'', t_from_user_id = ''ghost'', t_from_user_name = ''Ghost'',
         t_to_user_id = ''fay'', t_to_user_name = ''Fay'', t_amount = Finite 9,
         t_reason = ''gift'', t_status = ''pending'', t_created_at = 5,
         t_approved_at = None\<rparr>"

definition s4 :: sale where
  "s4 = \<lparr>s_id = ''s4'', s_sale_number = ''SALE-000001'', s_customer_name = ''Gus'',
         s_items = [], s_total_amount = Finite 9007199254740996, s_payment_type = ''credit'',
         s_collected_by = ''fay'', s_collected_by_name = ''Fay'', s_status = ''partial'',
         s_paid_amount = Finite 9007199254740992, s_notes = None, s_created_at = 6\<rparr>"

definition ledger1 :: db where
  "ledger1 = \<lparr>users = [dora, erin, fay], sales = [s4], credit_payments = [],
              transfers = [t5, t6]\<rparr>"

section \<open>Properties\<close>

subsection \<open>Facts about doubles\<close>

lemma round_half_even_int: "round_half_even (of_int n) = n"
  by (simp add: round_half_even_def)


lemma pow2_split: "k \<le> e \<Longrightarrow> (2::real) ^ e = 2 ^ (e - k) * 2 ^ k"
  by (simp add: power_add [symmetric])

lemma round_double_zero: "round_double 0 = Finite 0"
  by (simp add: round_double_def round_half_even_def max_exp_def)

lemma round_double_neg:
  "x \<noteq> 0 \<Longrightarrow> round_double (- x) =
     (case round_double x of Finite r \<Rightarrow> Finite (- r) | PlusInfinity \<Rightarrow> MinusInfinity
      | MinusInfinity \<Rightarrow> PlusInfinity | NaN \<Rightarrow> NaN)"
  by (auto simp: round_double_def Let_def)

text \<open>A positive integer below \<^verbatim>\<open>2^54\<close> is rounded to an even multiple of the unit
  that its size calls for: to itself up to \<^verbatim>\<open>2^53\<close>, to an even integer above.\<close>

lemma round_double_pos_int:
  assumes pos: "0 < n" and small: "n < 2 ^ 54"
  shows "round_double (of_int n) =
     Finite (if n < 2 ^ 53 then of_int n else 2 * of_int (round_half_even (of_int n / 2)))"
proof -
  let ?y = "\<bar>real_of_int n\<bar> * 2 ^ min_exp"
  have ypos: "?y = real_of_int n * 2 ^ min_exp" using pos by simp
  have y: "?y = of_int (n * 2 ^ min_exp)" using pos by simp
  have fl: "\<lfloor>?y\<rfloor> = n * 2 ^ min_exp" unfolding y by (rule floor_of_int)
  have bl: "bitlen (n * 2 ^ min_exp) = bitlen n + int min_exp" using pos by simp
  have le: "bitlen n \<le> 54"
    using small bitlen_le_iff_power [of n 54] by simp
  have ge: "1 \<le> bitlen n" using pos by (simp add: bitlen_ge_iff_power)
  define k where "k = nat (bitlen n + int min_exp - 53)"
  have big: "(2::real) ^ 54 < 2 ^ max_exp"
    unfolding max_exp_def by (rule power_strict_increasing) simp_all
  show ?thesis
  proof (cases "n < 2 ^ 53")
    case True
    then have "bitlen n \<le> 53" using bitlen_le_iff_power [of n 53] by simp
    then have k: "k \<le> min_exp" using ge by (simp add: k_def)
    have e: "(2::real) ^ min_exp = 2 ^ (min_exp - k) * 2 ^ k" using k by (rule pow2_split)
    have "real_of_int n * 2 ^ min_exp / 2 ^ k = of_int (n * 2 ^ (min_exp - k))"
      unfolding e by simp
    then have q: "?y / 2 ^ k = of_int (n * 2 ^ (min_exp - k))"
      by (simp only: ypos)
    have m: "round_half_even (?y / 2 ^ k) = n * 2 ^ (min_exp - k)"
      unfolding q by (rule round_half_even_int)
    have r: "real_of_int (n * 2 ^ (min_exp - k)) * 2 ^ k / 2 ^ min_exp = of_int n"
      unfolding e by simp
    have "real_of_int n < 2 ^ 54"
      using small by (metis of_int_less_iff of_int_numeral of_int_power)
    then have nsmall: "\<not> (2::real) ^ max_exp \<le> real_of_int n" using big by linarith
    show ?thesis
      unfolding round_double_def Let_def fl bl k_def [symmetric] m r
      using nsmall pos True by simp
  next
    case False
    then have "2 ^ 53 \<le> n" by simp
    then have "54 \<le> bitlen n" using bitlen_ge_iff_power [of 54 n] by simp
    then have b54: "bitlen n = 54" using le by simp
    have k: "k = Suc min_exp" using b54 by (simp add: k_def)
    have "real_of_int n * 2 ^ min_exp / 2 ^ Suc min_exp = of_int n / 2" by simp
    then have q: "?y / 2 ^ k = of_int n / 2" by (simp only: ypos k)
    let ?m = "round_half_even (real_of_int n / 2)"
    have r: "real_of_int ?m * 2 ^ k / 2 ^ min_exp = 2 * of_int ?m" unfolding k by simp
    have nr: "real_of_int n < 2 ^ 54"
      using small by (metis of_int_less_iff of_int_numeral of_int_power)
    then have "real_of_int n / 2 < 2 ^ 53" by simp
    then have "\<lfloor>real_of_int n / 2\<rfloor> < 2 ^ 53" by (simp add: floor_less_iff)
    then have "?m \<le> 2 ^ 53" by (simp add: round_half_even_def Let_def)
    then have "real_of_int ?m \<le> 2 ^ 53"
      by (metis of_int_le_iff of_int_numeral of_int_power)
    then have "2 * real_of_int ?m \<le> 2 ^ 54 + 2" by simp
    moreover have "(2::real) ^ 54 + 2 < 2 ^ max_exp"
    proof -
      have "(2::real) ^ 54 + 2 < 2 ^ 55" by simp
      also have "\<dots> \<le> 2 ^ max_exp"
        unfolding max_exp_def by (rule power_increasing) simp_all
      finally show ?thesis .
    qed
    ultimately have nsmall: "\<not> (2::real) ^ max_exp \<le> 2 * real_of_int ?m" by linarith
    show ?thesis
      unfolding round_double_def Let_def fl bl k_def [symmetric] q r
      using nsmall pos False by simp
  qed
qed

lemma round_double_int:
  assumes "\<bar>n\<bar> < 2 ^ 53"
  shows "round_double (of_int n) = Finite (of_int n)"
proof -
  consider "n = 0" | "0 < n" | "n < 0" by linarith
  then show ?thesis
  proof cases
    case 1
    then show ?thesis by (simp add: round_double_zero)
  next
    case 2
    then show ?thesis using assms round_double_pos_int [of n] by simp
  next
    case 3
    then have "round_double (of_int (- n)) = Finite (of_int (- n))"
      using assms round_double_pos_int [of "- n"] by simp
    then show ?thesis
      using 3 round_double_neg [of "of_int (- n)"] by simp
  qed
qed

lemma round_double_numeral:
  "numeral w < (2 ^ 53 :: int) \<Longrightarrow> round_double (numeral w) = Finite (numeral w)"
  "numeral w < (2 ^ 53 :: int) \<Longrightarrow> round_double (- numeral w) = Finite (- numeral w)"
  using round_double_int [of "numeral w"] round_double_int [of "- numeral w"] by simp_all

lemma round_double_one: "round_double 1 = Finite 1"
  using round_double_int [of 1] by simp

text \<open>Around \<^verbatim>\<open>2^53\<close> = 9007199254740992 the doubles are the even integers.\<close>

lemma round_double_at_2_53:
  "round_double 9007199254740992 = Finite 9007199254740992"
  "round_double 9007199254740993 = Finite 9007199254740992"
  "round_double 9007199254740995 = Finite 9007199254740996"
  "round_double 9007199254740996 = Finite 9007199254740996"
  using round_double_pos_int [of 9007199254740992] round_double_pos_int [of 9007199254740993]
    round_double_pos_int [of 9007199254740995] round_double_pos_int [of 9007199254740996]
  by (simp_all add: round_half_even_def)

lemmas double_eval = round_double_zero round_double_one round_double_numeral
  round_double_at_2_53 zero_double_def less_eq_double_def






lemma le_double_not_less: "(x :: double) \<le> y \<Longrightarrow> \<not> y < x"
  by (cases x; cases y) (auto simp: less_eq_double_def)

lemma add_zero_double: "is_double x \<Longrightarrow> 0 + x = x"
  by (cases x) (simp_all add: zero_double_def)

lemma is_double_uminus: "is_double x \<Longrightarrow> is_double (- x)"
proof (cases x)
  case (Finite a)
  assume "is_double x"
  then have r: "round_double a = Finite a" using Finite by simp
  show ?thesis
  proof (cases "a = 0")
    case True
    then show ?thesis using Finite by (simp add: round_double_zero)
  next
    case False
    then show ?thesis using Finite r round_double_neg [of a] by simp
  qed
qed simp_all


text \<open>Sums and comparisons of the amounts the examples use.\<close>

lemma double_examples:
  "Finite 10 + - Finite 60 = Finite (- 50)" "Finite 25 + Finite 80 = Finite 105"
  "Finite 0 + Finite 100 = Finite 100" "is_double (Finite 60)"
  "Finite 9007199254740992 + Finite 1 = Finite 9007199254740992"
  "Finite 9007199254740992 + - Finite 1 = Finite 9007199254740991"
  "Finite 10 < Finite 150" "\<not> Finite 10 < Finite (- 5)" "Finite (- 5) \<le> (0 :: double)"
  by (simp_all add: double_eval)

subsection \<open>Facts about the collection primitives\<close>

lemma find_one_holds: "find_one P xs = Some x \<Longrightarrow> P x"
  by (induction xs) (auto simp: find_one_def split: if_splits)

lemma find_one_update_one_same:
  "(\<And>x. P x \<Longrightarrow> P (f x)) \<Longrightarrow> find_one P (update_one P f xs) = map_option f (find_one P xs)"
  by (induction xs) (auto simp: find_one_def)

lemma find_one_update_one_other:
  "(\<And>x. P x \<Longrightarrow> \<not> Q x \<and> \<not> Q (f x)) \<Longrightarrow> find_one Q (update_one P f xs) = find_one Q xs"
  by (induction xs) (auto simp: find_one_def)

lemma u_id_inc_cash_balance: "u_id (inc_cash_balance delta u) = u_id u"
  by (simp add: inc_cash_balance_def)

lemma get_cash_balance_inc:
  "is_double delta \<Longrightarrow>
   get_cash_balance (inc_cash_balance delta u) = get_cash_balance u + delta"
  by (simp add: inc_cash_balance_def get_cash_balance_def add_zero_double split: option.splits)

lemma find_user_inc_same:
  "find_one (\<lambda>u. u_id u = a) (update_one (\<lambda>u. u_id u = a) (inc_cash_balance delta) us) =
     map_option (inc_cash_balance delta) (find_one (\<lambda>u. u_id u = a) us)"
  by (rule find_one_update_one_same) (simp add: u_id_inc_cash_balance)

lemma find_user_inc_other:
  "a \<noteq> b \<Longrightarrow>
   find_one (\<lambda>u. u_id u = b) (update_one (\<lambda>u. u_id u = a) (inc_cash_balance delta) us) =
     find_one (\<lambda>u. u_id u = b) us"
  by (rule find_one_update_one_other) (simp add: u_id_inc_cash_balance)

lemma balance_of_inc:
  "is_double delta \<Longrightarrow>
   balance_of (d\<lparr>users := update_one (\<lambda>u. u_id u = a) (inc_cash_balance delta) (users d)\<rparr>) b =
     (if a = b then map_option (\<lambda>x. x + delta) (balance_of d b) else balance_of d b)"
  by (simp add: balance_of_def find_user_inc_same find_user_inc_other
        option.map_comp comp_def get_cash_balance_inc)

lemma balance_of_users_cong: "users d' = users d \<Longrightarrow> balance_of d' b = balance_of d b"
  by (simp add: balance_of_def)

lemma current_user_id: "get_current_user d uid = Inr current_user \<Longrightarrow> u_id current_user = uid"
  by (auto simp: get_current_user_def split: option.splits dest: find_one_holds)

lemma current_user_balance:
  "get_current_user d uid = Inr current_user \<Longrightarrow>
   balance_of d uid = Some (get_cash_balance current_user)"
  by (auto simp: get_current_user_def balance_of_def split: option.splits)

subsection \<open>Deciding a transfer\<close>

lemma find_transfer_decided:
  "find_one (\<lambda>t. t_id t = transfer_id)
     (update_one (\<lambda>t. t_id t = transfer_id)
        (\<lambda>t. t\<lparr>t_status := st, t_approved_at := Some now\<rparr>) ts) =
   map_option (\<lambda>t. t\<lparr>t_status := st, t_approved_at := Some now\<rparr>)
     (find_one (\<lambda>t. t_id t = transfer_id) ts)"
  by (rule find_one_update_one_same) simp

lemma approve_transfer_accepted:
  assumes "find_one (\<lambda>t. t_id t = transfer_id) (transfers d) = Some transfer"
    and "t_to_user_id transfer = u_id current_user"
    and "t_status transfer = ''pending''"
  shows "approve_transfer transfer_id approval current_user now d =
    (Inr (transfer\<lparr>t_status := action approval @ ''d'', t_approved_at := Some now\<rparr>),
     d\<lparr>transfers := update_one (\<lambda>t. t_id t = transfer_id)
         (\<lambda>t. t\<lparr>t_status := action approval @ ''d'', t_approved_at := Some now\<rparr>)
         (transfers d),
       users := (if action approval = ''approve''
          then update_one (\<lambda>u. u_id u = t_to_user_id transfer)
                 (inc_cash_balance (t_amount transfer))
                 (update_one (\<lambda>u. u_id u = t_from_user_id transfer)
                    (inc_cash_balance (- t_amount transfer)) (users d))
          else users d)\<rparr>)"
  using assms
  by (simp add: approve_transfer_def Let_def find_transfer_decided)

lemma approve_transfer_refused:
  assumes "find_one (\<lambda>t. t_id t = transfer_id) (transfers d) = Some transfer"
    and "t_to_user_id transfer = u_id current_user"
    and "t_status transfer \<noteq> ''pending''"
  shows "approve_transfer transfer_id approval current_user now d =
    (Inl (HTTPException 400 ''Transfer already processed''), d)"
  using assms by (simp add: approve_transfer_def)

text \<open>The \<^verbatim>\<open>TypeError\<close> branch is dead: the document updated is found again.\<close>

lemma approve_transfer_no_type_error:
  "fst (approve_transfer transfer_id approval current_user now d) \<noteq> Inl TypeError"
proof (cases "find_one (\<lambda>t. t_id t = transfer_id) (transfers d)")
  case None
  then show ?thesis by (simp add: approve_transfer_def)
next
  case (Some transfer)
  show ?thesis
  proof (cases "t_to_user_id transfer = u_id current_user \<and> t_status transfer = ''pending''")
    case True
    then show ?thesis using approve_transfer_accepted [OF Some] by simp
  next
    case False
    then show ?thesis using Some by (auto simp: approve_transfer_def)
  qed
qed

text \<open>
  Claim C1, as the code has it. The recipient \<open>uid\<close> approves a pending transfer whose
  sender is another user, one with an account. The handler answers with the transfer
  marked \<^verbatim>\<open>approved\<close> and stamped with the approval time, and stores it so. The
  sender's balance becomes the old one plus the negated amount and the recipient's the old
  one plus the amount, both sums taken in double arithmetic, and no other balance moves.
  Where the exact results are doubles, the sender's balance has gone down by exactly the
  amount and the recipient's has gone up by exactly the amount, so that the two changes
  add up to zero. No hypothesis bounds the sender's balance: the handler does not look at
  it, and it may end below zero. Approving the same transfer again is refused with status
  400 (\<^verbatim>\<open>Transfer already processed\<close>) and leaves the database as it is, so the amount
  moves once.
\<close>

theorem approve_moves_amount_once:
  assumes auth: "get_current_user d uid = Inr current_user"
    and found: "find_one (\<lambda>t. t_id t = transfer_id) (transfers d) = Some transfer"
    and pending: "t_status transfer = ''pending''"
    and recipient: "t_to_user_id transfer = uid"
    and distinct: "t_from_user_id transfer \<noteq> t_to_user_id transfer"
    and sender: "balance_of d (t_from_user_id transfer) = Some sender_balance"
    and amount: "is_double (t_amount transfer)"
    and call: "approve_transfer transfer_id \<lparr>action = ''approve''\<rparr> current_user now d = (r, d')"
  shows "r = Inr (transfer\<lparr>t_status := ''approved'', t_approved_at := Some now\<rparr>) \<and>
    find_one (\<lambda>t. t_id t = transfer_id) (transfers d') =
      Some (transfer\<lparr>t_status := ''approved'', t_approved_at := Some now\<rparr>) \<and>
    balance_of d' (t_from_user_id transfer) = Some (sender_balance + - t_amount transfer) \<and>
    balance_of d uid = Some (get_cash_balance current_user) \<and>
    balance_of d' uid = Some (get_cash_balance current_user + t_amount transfer) \<and>
    (\<forall>s b a. sender_balance = Finite s \<and> get_cash_balance current_user = Finite b \<and>
       t_amount transfer = Finite a \<and> is_double (Finite (s - a)) \<and> is_double (Finite (b + a)) \<longrightarrow>
       balance_of d' (t_from_user_id transfer) = Some (Finite (s - a)) \<and>
       balance_of d' uid = Some (Finite (b + a)) \<and>
       ((s - a) - s) + ((b + a) - b) = 0) \<and>
    (\<forall>u. u \<noteq> t_from_user_id transfer \<and> u \<noteq> uid \<longrightarrow> balance_of d' u = balance_of d u) \<and>
    (\<forall>current_user' now'. u_id current_user' = uid \<longrightarrow>
       approve_transfer transfer_id \<lparr>action = ''approve''\<rparr> current_user' now' d' =
         (Inl (HTTPException 400 ''Transfer already processed''), d'))"
proof -
  let ?t' = "transfer\<lparr>t_status := ''approved'', t_approved_at := Some now\<rparr>"
  have cu: "u_id current_user = uid" using auth by (rule current_user_id)
  have bal: "balance_of d uid = Some (get_cash_balance current_user)"
    using auth by (rule current_user_balance)
  have neg: "is_double (- t_amount transfer)" using amount by (rule is_double_uminus)
  have res: "(r, d') =
    (Inr ?t',
     d\<lparr>transfers := update_one (\<lambda>t. t_id t = transfer_id)
         (\<lambda>t. t\<lparr>t_status := ''approved'', t_approved_at := Some now\<rparr>) (transfers d),
       users := update_one (\<lambda>u. u_id u = t_to_user_id transfer)
                 (inc_cash_balance (t_amount transfer))
                 (update_one (\<lambda>u. u_id u = t_from_user_id transfer)
                    (inc_cash_balance (- t_amount transfer)) (users d))\<rparr>)"
    using approve_transfer_accepted [OF found _ pending, of current_user "\<lparr>action = ''approve''\<rparr>" now]
      call recipient cu by simp
  have r: "r = Inr ?t'" using res by simp
  have ts: "transfers d' = update_one (\<lambda>t. t_id t = transfer_id)
         (\<lambda>t. t\<lparr>t_status := ''approved'', t_approved_at := Some now\<rparr>) (transfers d)"
    using res by simp
  have us: "users d' = update_one (\<lambda>u. u_id u = t_to_user_id transfer)
                 (inc_cash_balance (t_amount transfer))
                 (update_one (\<lambda>u. u_id u = t_from_user_id transfer)
                    (inc_cash_balance (- t_amount transfer)) (users d))"
    using res by simp
  have found': "find_one (\<lambda>t. t_id t = transfer_id) (transfers d') = Some ?t'"
    by (simp add: ts find_transfer_decided found)
  have bal_eq: "balance_of d' u =
      (if t_to_user_id transfer = u
       then map_option (\<lambda>x. x + t_amount transfer)
         (if t_from_user_id transfer = u
          then map_option (\<lambda>x. x + - t_amount transfer) (balance_of d u) else balance_of d u)
       else (if t_from_user_id transfer = u
          then map_option (\<lambda>x. x + - t_amount transfer) (balance_of d u) else balance_of d u))"
    for u
  proof -
    let ?d1 = "d\<lparr>users := update_one (\<lambda>u. u_id u = t_from_user_id transfer)
                    (inc_cash_balance (- t_amount transfer)) (users d)\<rparr>"
    have "balance_of d' u = balance_of (?d1\<lparr>users := update_one
        (\<lambda>u. u_id u = t_to_user_id transfer) (inc_cash_balance (t_amount transfer)) (users ?d1)\<rparr>) u"
      by (rule balance_of_users_cong) (simp add: us)
    then show ?thesis by (simp only: balance_of_inc [OF amount] balance_of_inc [OF neg])
  qed
  have b_from: "balance_of d' (t_from_user_id transfer) = Some (sender_balance + - t_amount transfer)"
    using distinct sender by (simp add: bal_eq)
  have b_to: "balance_of d' uid = Some (get_cash_balance current_user + t_amount transfer)"
    using distinct recipient bal by (simp add: bal_eq)
  have exact: "\<forall>s b a. sender_balance = Finite s \<and> get_cash_balance current_user = Finite b \<and>
       t_amount transfer = Finite a \<and> is_double (Finite (s - a)) \<and> is_double (Finite (b + a)) \<longrightarrow>
       balance_of d' (t_from_user_id transfer) = Some (Finite (s - a)) \<and>
       balance_of d' uid = Some (Finite (b + a)) \<and>
       ((s - a) - s) + ((b + a) - b) = 0"
    using b_from b_to by simp
  have b_other: "\<forall>u. u \<noteq> t_from_user_id transfer \<and> u \<noteq> uid \<longrightarrow> balance_of d' u = balance_of d u"
    using recipient by (auto simp: bal_eq)
  have again: "\<forall>current_user' now'. u_id current_user' = uid \<longrightarrow>
       approve_transfer transfer_id \<lparr>action = ''approve''\<rparr> current_user' now' d' =
         (Inl (HTTPException 400 ''Transfer already processed''), d')"
    using approve_transfer_refused [OF found'] recipient by simp
  show ?thesis using r found' b_from bal b_to exact b_other again by blast
qed

lemmas ledger0_defs = ledger0_def alice_def bob_def carol_def t1_def t2_def t3_def s1_def s2_def

lemmas ledger1_defs = ledger1_def dora_def erin_def fay_def t5_def t6_def s4_def

lemmas eval_defs = find_one_def get_current_user_def balance_of_def get_cash_balance_def
  inc_cash_balance_def insert_one_def Let_def

text \<open>On the example ledger Bob approves \<open>t1\<close>: Alice, who holds 10, hands over 60 and
  ends at \<open>-50\<close>; Bob ends at 60; Carol keeps her balance; a second approval is refused.\<close>

theorem approve_moves_amount_once_witness:
  "get_current_user ledger0 ''bob'' = Inr bob \<and>
   find_one (\<lambda>t. t_id t = ''t1'') (transfers ledger0) = Some t1 \<and>
   t_status t1 = ''pending'' \<and> t_to_user_id t1 = ''bob'' \<and>
   t_from_user_id t1 \<noteq> t_to_user_id t1 \<and>
   balance_of ledger0 (t_from_user_id t1) = Some (Finite 10) \<and>
   t_amount t1 = Finite 60 \<and> is_double (t_amount t1) \<and>
   is_double (Finite (10 - 60)) \<and> is_double (Finite (0 + 60)) \<and>
   fst (approve_transfer ''t1'' \<lparr>action = ''approve''\<rparr> bob 20 ledger0) =
     Inr (t1\<lparr>t_status := ''approved'', t_approved_at := Some 20\<rparr>) \<and>
   balance_of (snd (approve_transfer ''t1'' \<lparr>action = ''approve''\<rparr> bob 20 ledger0)) ''alice'' =
     Some (Finite (- 50)) \<and>
   balance_of (snd (approve_transfer ''t1'' \<lparr>action = ''approve''\<rparr> bob 20 ledger0)) ''bob'' =
     Some (Finite 60) \<and>
   balance_of (snd (approve_transfer ''t1'' \<lparr>action = ''approve''\<rparr> bob 20 ledger0)) ''carol'' =
     balance_of ledger0 ''carol'' \<and>
   approve_transfer ''t1'' \<lparr>action = ''approve''\<rparr> bob 21
       (snd (approve_transfer ''t1'' \<lparr>action = ''approve''\<rparr> bob 20 ledger0)) =
     (Inl (HTTPException 400 ''Transfer already processed''),
      snd (approve_transfer ''t1'' \<lparr>action = ''approve''\<rparr> bob 20 ledger0))"
proof -
  let ?call = "approve_transfer ''t1'' \<lparr>action = ''approve''\<rparr> bob 20 ledger0"
  have h1: "get_current_user ledger0 ''bob'' = Inr bob"
    by (simp add: ledger0_defs eval_defs)
  have h2: "find_one (\<lambda>t. t_id t = ''t1'') (transfers ledger0) = Some t1"
    by (simp add: ledger0_defs eval_defs)
  have h3: "t_status t1 = ''pending''" by (simp add: t1_def)
  have h4: "t_to_user_id t1 = ''bob''" by (simp add: t1_def)
  have h5: "t_from_user_id t1 \<noteq> t_to_user_id t1" by (simp add: t1_def)
  have h6: "balance_of ledger0 (t_from_user_id t1) = Some (Finite 10)"
    by (simp add: ledger0_defs eval_defs)
  have amt: "t_amount t1 = Finite 60" by (simp add: t1_def)
  have h7: "is_double (t_amount t1)" by (simp add: amt double_eval)
  have h8: "?call = (fst ?call, snd ?call)" by simp
  have ex: "is_double (Finite (10 - 60))" "is_double (Finite (0 + 60))"
    by (simp_all add: double_eval)
  have bal: "get_cash_balance bob = Finite 0" by (simp add: bob_def get_cash_balance_def)
  have idb: "u_id bob = ''bob''" by (simp add: bob_def)
  have ida: "t_from_user_id t1 = ''alice''" by (simp add: t1_def)
  note concl = approve_moves_amount_once [OF h1 h2 h3 h4 h5 h6 h7 h8]
  from concl have c1: "fst ?call = Inr (t1\<lparr>t_status := ''approved'', t_approved_at := Some 20\<rparr>)"
    by blast
  from concl have "Finite 10 = Finite 10 \<and> get_cash_balance bob = Finite 0 \<and>
       t_amount t1 = Finite 60 \<and> is_double (Finite (10 - 60)) \<and> is_double (Finite (0 + 60)) \<longrightarrow>
       balance_of (snd ?call) (t_from_user_id t1) = Some (Finite (10 - 60)) \<and>
       balance_of (snd ?call) ''bob'' = Some (Finite (0 + 60)) \<and>
       ((10 - 60) - 10) + ((0 + 60) - 0) = (0 :: real)"
    by blast
  then have c23: "balance_of (snd ?call) ''alice'' = Some (Finite (- 50))"
      "balance_of (snd ?call) ''bob'' = Some (Finite 60)"
    using bal amt ex ida by simp_all
  from concl have "''carol'' \<noteq> t_from_user_id t1 \<and> ''carol'' \<noteq> ''bob'' \<longrightarrow>
      balance_of (snd ?call) ''carol'' = balance_of ledger0 ''carol''"
    by blast
  then have c4: "balance_of (snd ?call) ''carol'' = balance_of ledger0 ''carol''"
    by (simp add: ida)
  from concl have "u_id bob = ''bob'' \<longrightarrow>
      approve_transfer ''t1'' \<lparr>action = ''approve''\<rparr> bob 21 (snd ?call) =
        (Inl (HTTPException 400 ''Transfer already processed''), snd ?call)"
    by blast
  then have c5: "approve_transfer ''t1'' \<lparr>action = ''approve''\<rparr> bob 21 (snd ?call) =
        (Inl (HTTPException 400 ''Transfer already processed''), snd ?call)"
    by (simp add: idb)
  show ?thesis using h1 h2 h3 h4 h5 h6 amt h7 ex c1 c23 c4 c5 by blast
qed

text \<open>
  Claim C1 as written fails in three ways. Nothing stops Alice from requesting a transfer
  to herself: on approval the decrement and the increment hit the same document, and her
  balance is not lower by the amount. Dora hands 1 to Erin, who holds \<^verbatim>\<open>2^53\<close>: the
  sum is rounded back to \<^verbatim>\<open>2^53\<close>, so Erin gains nothing while Dora loses 1. And the
  transfer \<open>t6\<close> names a sender with no account: Fay gains 9 and no balance goes down.
\<close>

theorem approve_not_exact_counterexample:
  "get_current_user ledger0 ''alice'' = Inr alice \<and>
   find_one (\<lambda>t. t_id t = ''t2'') (transfers ledger0) = Some t2 \<and>
   t_status t2 = ''pending'' \<and> t_to_user_id t2 = ''alice'' \<and>
   t_from_user_id t2 = ''alice'' \<and> t_amount t2 = Finite 5 \<and>
   balance_of ledger0 ''alice'' = Some (Finite 10) \<and>
   fst (approve_transfer ''t2'' \<lparr>action = ''approve''\<rparr> alice 20 ledger0) =
     Inr (t2\<lparr>t_status := ''approved'', t_approved_at := Some 20\<rparr>) \<and>
   balance_of (snd (approve_transfer ''t2'' \<lparr>action = ''approve''\<rparr> alice 20 ledger0)) ''alice'' =
     Some (Finite 10) \<and>
   get_current_user ledger1 ''erin'' = Inr erin \<and>
   find_one (\<lambda>t. t_id t = ''t5'') (transfers ledger1) = Some t5 \<and>
   t_status t5 = ''pending'' \<and> t_to_user_id t5 = ''erin'' \<and>
   t_from_user_id t5 = ''dora'' \<and> t_amount t5 = Finite 1 \<and>
   balance_of ledger1 ''dora'' = Some (Finite 9007199254740992) \<and>
   balance_of ledger1 ''erin'' = Some (Finite 9007199254740992) \<and>
   fst (approve_transfer ''t5'' \<lparr>action = ''approve''\<rparr> erin 20 ledger1) =
     Inr (t5\<lparr>t_status := ''approved'', t_approved_at := Some 20\<rparr>) \<and>
   balance_of (snd (approve_transfer ''t5'' \<lparr>action = ''approve''\<rparr> erin 20 ledger1)) ''dora'' =
     Some (Finite 9007199254740991) \<and>
   balance_of (snd (approve_transfer ''t5'' \<lparr>action = ''approve''\<rparr> erin 20 ledger1)) ''erin'' =
     Some (Finite 9007199254740992) \<and>
   get_current_user ledger1 ''fay'' = Inr fay \<and>
   find_one (\<lambda>t. t_id t = ''t6'') (transfers ledger1) = Some t6 \<and>
   t_status t6 = ''pending'' \<and> t_to_user_id t6 = ''fay'' \<and>
   t_from_user_id t6 = ''ghost'' \<and> t_amount t6 = Finite 9 \<and>
   balance_of ledger1 ''ghost'' = None \<and> balance_of ledger1 ''fay'' = Some (Finite 0) \<and>
   map (\<lambda>u. balance_of (snd (approve_transfer ''t6'' \<lparr>action = ''approve''\<rparr> fay 20 ledger1)) u)
     [''ghost'', ''dora'', ''erin'', ''fay''] =
     [None, Some (Finite 9007199254740992), Some (Finite 9007199254740992), Some (Finite 9)]"
  by (simp add: approve_transfer_def ledger0_defs ledger1_defs eval_defs double_eval)

text \<open>
  Claim C3. Deciding a transfer raises 404 (\<^verbatim>\<open>Transfer not found\<close>) when no transfer has
  the id, 403 (\<^verbatim>\<open>Only recipient can approve/reject\<close>) when the transfer exists and the
  acting user is not its recipient, and 400 (\<^verbatim>\<open>Transfer already processed\<close>) when the
  recipient decides a transfer whose status is not \<^verbatim>\<open>pending\<close>. The checks run in this
  order, so a stranger deciding a settled transfer gets 403. In each case the database
  returned is the one received: no transfer and no balance has changed, and a transfer
  that is not pending is never decided again, whoever asks and whatever the action.
\<close>

theorem decide_transfer_failures:
  "(find_one (\<lambda>t. t_id t = transfer_id) (transfers d) = None \<longrightarrow>
      approve_transfer transfer_id approval current_user now d =
        (Inl (HTTPException 404 ''Transfer not found''), d)) \<and>
   (\<forall>transfer. find_one (\<lambda>t. t_id t = transfer_id) (transfers d) = Some transfer \<and>
      t_to_user_id transfer \<noteq> u_id current_user \<longrightarrow>
      approve_transfer transfer_id approval current_user now d =
        (Inl (HTTPException 403 ''Only recipient can approve/reject''), d)) \<and>
   (\<forall>transfer. find_one (\<lambda>t. t_id t = transfer_id) (transfers d) = Some transfer \<and>
      t_to_user_id transfer = u_id current_user \<and> t_status transfer \<noteq> ''pending'' \<longrightarrow>
      approve_transfer transfer_id approval current_user now d =
        (Inl (HTTPException 400 ''Transfer already processed''), d)) \<and>
   (\<forall>transfer. find_one (\<lambda>t. t_id t = transfer_id) (transfers d) = Some transfer \<and>
      t_status transfer \<noteq> ''pending'' \<longrightarrow>
      (\<exists>e. approve_transfer transfer_id approval current_user now d = (Inl e, d)))"
  by (simp add: approve_transfer_def)

text \<open>On the example ledger: an unknown id, Carol deciding a transfer addressed to Bob,
  Bob approving again the transfer he approved before, and Carol rejecting it.\<close>

theorem decide_transfer_failures_witness:
  "find_one (\<lambda>t. t_id t = ''t9'') (transfers ledger0) = None \<and>
   approve_transfer ''t9'' \<lparr>action = ''approve''\<rparr> bob 20 ledger0 =
     (Inl (HTTPException 404 ''Transfer not found''), ledger0) \<and>
   find_one (\<lambda>t. t_id t = ''t1'') (transfers ledger0) = Some t1 \<and>
   t_to_user_id t1 \<noteq> u_id carol \<and>
   approve_transfer ''t1'' \<lparr>action = ''approve''\<rparr> carol 20 ledger0 =
     (Inl (HTTPException 403 ''Only recipient can approve/reject''), ledger0) \<and>
   find_one (\<lambda>t. t_id t = ''t3'') (transfers ledger0) = Some t3 \<and>
   t_to_user_id t3 = u_id bob \<and> t_status t3 \<noteq> ''pending'' \<and>
   approve_transfer ''t3'' \<lparr>action = ''approve''\<rparr> bob 20 ledger0 =
     (Inl (HTTPException 400 ''Transfer already processed''), ledger0) \<and>
   fst (approve_transfer ''t3'' \<lparr>action = ''reject''\<rparr> carol 20 ledger0) =
     Inl (HTTPException 403 ''Only recipient can approve/reject'') \<and>
   snd (approve_transfer ''t3'' \<lparr>action = ''reject''\<rparr> carol 20 ledger0) = ledger0"
proof -
  have f9: "find_one (\<lambda>t. t_id t = ''t9'') (transfers ledger0) = None"
    by (simp add: ledger0_defs eval_defs)
  have f1: "find_one (\<lambda>t. t_id t = ''t1'') (transfers ledger0) = Some t1"
    by (simp add: ledger0_defs eval_defs)
  have f3: "find_one (\<lambda>t. t_id t = ''t3'') (transfers ledger0) = Some t3"
    by (simp add: ledger0_defs eval_defs)
  have n1: "t_to_user_id t1 \<noteq> u_id carol" by (simp add: t1_def carol_def)
  have r3: "t_to_user_id t3 = u_id bob" by (simp add: t3_def bob_def)
  have n3: "t_to_user_id t3 \<noteq> u_id carol" by (simp add: t3_def carol_def)
  have s3: "t_status t3 \<noteq> ''pending''" by (simp add: t3_def)
  have a: "approve_transfer ''t9'' \<lparr>action = ''approve''\<rparr> bob 20 ledger0 =
     (Inl (HTTPException 404 ''Transfer not found''), ledger0)"
    using decide_transfer_failures [of "''t9''" ledger0 "\<lparr>action = ''approve''\<rparr>" bob 20] f9
    by blast
  have b: "approve_transfer ''t1'' \<lparr>action = ''approve''\<rparr> carol 20 ledger0 =
     (Inl (HTTPException 403 ''Only recipient can approve/reject''), ledger0)"
    using decide_transfer_failures [of "''t1''" ledger0 "\<lparr>action = ''approve''\<rparr>" carol 20] f1 n1
    by blast
  have c: "approve_transfer ''t3'' \<lparr>action = ''approve''\<rparr> bob 20 ledger0 =
     (Inl (HTTPException 400 ''Transfer already processed''), ledger0)"
    using decide_transfer_failures [of "''t3''" ledger0 "\<lparr>action = ''approve''\<rparr>" bob 20] f3 r3 s3
    by blast
  have d: "approve_transfer ''t3'' \<lparr>action = ''reject''\<rparr> carol 20 ledger0 =
     (Inl (HTTPException 403 ''Only recipient can approve/reject''), ledger0)"
    using decide_transfer_failures [of "''t3''" ledger0 "\<lparr>action = ''reject''\<rparr>" carol 20] f3 n3
    by blast
  show ?thesis using f9 f1 f3 n1 r3 s3 a b c d by simp
qed


text \<open>
  Claim C9 at a concrete call. Bob rejects the pending transfer \<open>t1\<close> addressed to him. No
  balance moves, as the claim says, but the status stored and returned is
  \<^verbatim>\<open>"reject" + "d"\<close>, the string \<^verbatim>\<open>rejectd\<close>, and not \<^verbatim>\<open>rejected\<close>.
\<close>

theorem reject_stores_rejectd:
  "get_current_user ledger0 ''bob'' = Inr bob \<and>
   find_one (\<lambda>t. t_id t = ''t1'') (transfers ledger0) = Some t1 \<and>
   t_status t1 = ''pending'' \<and> t_to_user_id t1 = u_id bob \<and>
   approve_transfer ''t1'' \<lparr>action = ''reject''\<rparr> bob 20 ledger0 =
     (Inr (t1\<lparr>t_status := ''rejectd'', t_approved_at := Some 20\<rparr>),
      ledger0\<lparr>transfers := [t1\<lparr>t_status := ''rejectd'', t_approved_at := Some 20\<rparr>, t2, t3]\<rparr>) \<and>
   t_status (t1\<lparr>t_status := ''rejectd'', t_approved_at := Some 20\<rparr>) \<noteq> ''rejected'' \<and>
   users (snd (approve_transfer ''t1'' \<lparr>action = ''reject''\<rparr> bob 20 ledger0)) = users ledger0"
  by (simp add: approve_transfer_def ledger0_defs eval_defs)

text \<open>
  Claim C2 at concrete calls. From \<^verbatim>\<open>pending\<close> the recipient's decision \<^verbatim>\<open>reject\<close>
  leads to the status \<^verbatim>\<open>rejectd\<close>, and the action \<^verbatim>\<open>cancel\<close>, which nothing
  refuses, leads to \<^verbatim>\<open>canceld\<close>: states that are neither \<^verbatim>\<open>approved\<close> nor
  \<^verbatim>\<open>rejected\<close>.
\<close>

theorem pending_reaches_other_states:
  "map_option t_status (find_one (\<lambda>t. t_id t = ''t1'') (transfers ledger0)) = Some ''pending'' \<and>
   map_option t_status (find_one (\<lambda>t. t_id t = ''t1'')
     (transfers (snd (approve_transfer ''t1'' \<lparr>action = ''reject''\<rparr> bob 20 ledger0)))) =
     Some ''rejectd'' \<and>
   map_option t_status (find_one (\<lambda>t. t_id t = ''t1'')
     (transfers (snd (approve_transfer ''t1'' \<lparr>action = ''cancel''\<rparr> bob 20 ledger0)))) =
     Some ''canceld'' \<and>
   ''rejectd'' \<noteq> ''approved'' \<and> ''rejectd'' \<noteq> ''rejected'' \<and>
   ''canceld'' \<noteq> ''approved'' \<and> ''canceld'' \<noteq> ''rejected''"
  by (simp add: approve_transfer_def ledger0_defs eval_defs)

text \<open>
  Claim C10, as the code has it. The recipient decides a pending transfer with an action
  that is neither \<^verbatim>\<open>approve\<close> nor \<^verbatim>\<open>reject\<close>. The call succeeds; the transfer
  returned and stored has the action followed by the letter \<^verbatim>\<open>d\<close> as its status and
  carries the approval time; the users, and so every balance, are untouched. The new
  status is never \<^verbatim>\<open>pending\<close> and never \<^verbatim>\<open>approved\<close>, and it is \<^verbatim>\<open>rejected\<close> only
  for the action \<^verbatim>\<open>rejecte\<close>.
\<close>

theorem other_action_appends_d:
  assumes auth: "get_current_user d uid = Inr current_user"
    and found: "find_one (\<lambda>t. t_id t = transfer_id) (transfers d) = Some transfer"
    and pending: "t_status transfer = ''pending''"
    and recipient: "t_to_user_id transfer = uid"
    and other: "action approval \<noteq> ''approve''" "action approval \<noteq> ''reject''"
    and call: "approve_transfer transfer_id approval current_user now d = (r, d')"
  shows "r = Inr (transfer\<lparr>t_status := action approval @ ''d'', t_approved_at := Some now\<rparr>) \<and>
    find_one (\<lambda>t. t_id t = transfer_id) (transfers d') =
      Some (transfer\<lparr>t_status := action approval @ ''d'', t_approved_at := Some now\<rparr>) \<and>
    users d' = users d \<and>
    (\<forall>u. balance_of d' u = balance_of d u) \<and>
    action approval @ ''d'' \<noteq> ''approved'' \<and>
    (action approval \<noteq> ''rejecte'' \<longrightarrow> action approval @ ''d'' \<noteq> ''rejected'') \<and>
    action approval @ ''d'' \<noteq> ''pending''"
proof -
  let ?t' = "transfer\<lparr>t_status := action approval @ ''d'', t_approved_at := Some now\<rparr>"
  have cu: "u_id current_user = uid" using auth by (rule current_user_id)
  have res: "(r, d') =
    (Inr ?t',
     d\<lparr>transfers := update_one (\<lambda>t. t_id t = transfer_id)
         (\<lambda>t. t\<lparr>t_status := action approval @ ''d'', t_approved_at := Some now\<rparr>)
         (transfers d)\<rparr>)"
    using approve_transfer_accepted [OF found _ pending, of current_user approval now]
      call recipient cu other by simp
  have r: "r = Inr ?t'" using res by simp
  have us: "users d' = users d" using res by simp
  have found': "find_one (\<lambda>t. t_id t = transfer_id) (transfers d') = Some ?t'"
    using res by (simp add: find_transfer_decided found)
  have bal: "\<forall>u. balance_of d' u = balance_of d u"
    using us by (simp add: balance_of_def)
  have s1: "action approval @ ''d'' \<noteq> ''approved''"
    using other(1) by (metis append1_eq_conv append_Cons append_Nil)
  have s2: "action approval \<noteq> ''rejecte'' \<longrightarrow> action approval @ ''d'' \<noteq> ''rejected''"
    by (metis append1_eq_conv append_Cons append_Nil)
  have "last (action approval @ ''d'') \<noteq> last ''pending''" by simp
  then have s3: "action approval @ ''d'' \<noteq> ''pending''" by metis
  show ?thesis using r found' us bal s1 s2 s3 by blast
qed

text \<open>On the example ledger Bob sends the action \<^verbatim>\<open>cancel\<close> for \<open>t1\<close>.\<close>

theorem other_action_appends_d_witness:
  "get_current_user ledger0 ''bob'' = Inr bob \<and>
   find_one (\<lambda>t. t_id t = ''t1'') (transfers ledger0) = Some t1 \<and>
   t_status t1 = ''pending'' \<and> t_to_user_id t1 = ''bob'' \<and>
   ''cancel'' \<noteq> ''approve'' \<and> ''cancel'' \<noteq> ''reject'' \<and>
   ''cancel'' \<noteq> ''rejecte'' \<and>
   fst (approve_transfer ''t1'' \<lparr>action = ''cancel''\<rparr> bob 20 ledger0) =
     Inr (t1\<lparr>t_status := ''canceld'', t_approved_at := Some 20\<rparr>) \<and>
   find_one (\<lambda>t. t_id t = ''t1'')
     (transfers (snd (approve_transfer ''t1'' \<lparr>action = ''cancel''\<rparr> bob 20 ledger0))) =
     Some (t1\<lparr>t_status := ''canceld'', t_approved_at := Some 20\<rparr>) \<and>
   users (snd (approve_transfer ''t1'' \<lparr>action = ''cancel''\<rparr> bob 20 ledger0)) =
     [alice, bob, carol] \<and>
   balance_of (snd (approve_transfer ''t1'' \<lparr>action = ''cancel''\<rparr> bob 20 ledger0)) ''alice'' =
     balance_of ledger0 ''alice'' \<and>
   ''canceld'' \<noteq> ''approved'' \<and> ''canceld'' \<noteq> ''rejected'' \<and> ''canceld'' \<noteq> ''pending''"
proof -
  let ?call = "approve_transfer ''t1'' \<lparr>action = ''cancel''\<rparr> bob 20 ledger0"
  have h1: "get_current_user ledger0 ''bob'' = Inr bob"
    by (simp add: ledger0_defs eval_defs)
  have h2: "find_one (\<lambda>t. t_id t = ''t1'') (transfers ledger0) = Some t1"
    by (simp add: ledger0_defs eval_defs)
  have h3: "t_status t1 = ''pending''" by (simp add: t1_def)
  have h4: "t_to_user_id t1 = ''bob''" by (simp add: t1_def)
  have h5: "action \<lparr>action = ''cancel''\<rparr> \<noteq> ''approve''" by simp
  have h6: "action \<lparr>action = ''cancel''\<rparr> \<noteq> ''reject''" by simp
  have h7: "?call = (fst ?call, snd ?call)" by simp
  have us: "users ledger0 = [alice, bob, carol]" by (simp add: ledger0_def)
  note concl = other_action_appends_d [OF h1 h2 h3 h4 h5 h6 h7]
  show ?thesis using h1 h2 h3 h4 concl us by simp
qed

text \<open>
  Claim C10 as written fails at the action \<^verbatim>\<open>rejecte\<close>, which is neither
  \<^verbatim>\<open>approve\<close> nor \<^verbatim>\<open>reject\<close>: with the \<^verbatim>\<open>d\<close> appended the transfer becomes
  \<^verbatim>\<open>rejected\<close>.
\<close>

theorem rejecte_becomes_rejected_counterexample:
  "get_current_user ledger0 ''bob'' = Inr bob \<and>
   find_one (\<lambda>t. t_id t = ''t1'') (transfers ledger0) = Some t1 \<and>
   t_status t1 = ''pending'' \<and> t_to_user_id t1 = u_id bob \<and>
   ''rejecte'' \<noteq> ''approve'' \<and> ''rejecte'' \<noteq> ''reject'' \<and>
   fst (approve_transfer ''t1'' \<lparr>action = ''rejecte''\<rparr> bob 20 ledger0) =
     Inr (t1\<lparr>t_status := ''rejected'', t_approved_at := Some 20\<rparr>) \<and>
   map_option t_status (find_one (\<lambda>t. t_id t = ''t1'')
     (transfers (snd (approve_transfer ''t1'' \<lparr>action = ''rejecte''\<rparr> bob 20 ledger0)))) =
     Some ''rejected''"
  by (simp add: approve_transfer_def ledger0_defs eval_defs)


subsection \<open>Requesting a transfer\<close>

text \<open>
  Claim C4. The sender is the authenticated user, so the balance the handler reads from
  \<^verbatim>\<open>current_user\<close> is the sender's balance in the database at request time. When it is
  strictly less than the amount the request raises 400 (\<^verbatim>\<open>Insufficient cash balance\<close>).
  When the balance suffices and no user has the recipient's id it raises 404
  (\<^verbatim>\<open>Recipient not found\<close>); the balance is checked first, so a request with a missing
  recipient always fails, with one of the two errors. Neither failure writes anything.
  Otherwise the request succeeds: exactly one transfer document, in state
  \<^verbatim>\<open>pending\<close>, is appended to the transfers, and the users, with all their balances,
  the sales and the payments stay as they were.
\<close>

theorem request_transfer_outcomes:
  assumes auth: "get_current_user d uid = Inr current_user"
  shows "balance_of d uid = Some (get_cash_balance current_user) \<and>
   (get_cash_balance current_user < tr_amount transfer_data \<longrightarrow>
      create_transfer_request transfer_data current_user transfer_id now d =
        (Inl (HTTPException 400 ''Insufficient cash balance''), d)) \<and>
   (\<not> get_cash_balance current_user < tr_amount transfer_data \<and>
    find_one (\<lambda>u. u_id u = tr_to_user_id transfer_data) (users d) = None \<longrightarrow>
      create_transfer_request transfer_data current_user transfer_id now d =
        (Inl (HTTPException 404 ''Recipient not found''), d)) \<and>
   (find_one (\<lambda>u. u_id u = tr_to_user_id transfer_data) (users d) = None \<longrightarrow>
      (\<exists>e. create_transfer_request transfer_data current_user transfer_id now d = (Inl e, d))) \<and>
   (\<forall>to_user. \<not> get_cash_balance current_user < tr_amount transfer_data \<and>
      find_one (\<lambda>u. u_id u = tr_to_user_id transfer_data) (users d) = Some to_user \<longrightarrow>
      (\<exists>t. create_transfer_request transfer_data current_user transfer_id now d =
             (Inr t, d\<lparr>transfers := transfers d @ [t]\<rparr>) \<and>
           t_status t = ''pending'' \<and> t_approved_at t = None \<and> t_id t = transfer_id \<and>
           t_from_user_id t = uid \<and> t_to_user_id t = tr_to_user_id transfer_data \<and>
           t_amount t = tr_amount transfer_data)) \<and>
   (\<forall>t d'. create_transfer_request transfer_data current_user transfer_id now d = (Inr t, d') \<longrightarrow>
      t_status t = ''pending'' \<and> transfers d' = transfers d @ [t] \<and> users d' = users d \<and>
      sales d' = sales d \<and> credit_payments d' = credit_payments d \<and>
      (\<forall>u. balance_of d' u = balance_of d u))"
proof -
  have cu: "u_id current_user = uid" using auth by (rule current_user_id)
  have bal: "balance_of d uid = Some (get_cash_balance current_user)"
    using auth by (rule current_user_balance)
  show ?thesis
    using cu bal
    by (auto simp: create_transfer_request_def insert_one_def Let_def balance_of_def
          split: option.splits)
qed

text \<open>On the example ledger: Alice, who holds 10, asks for 150; Carol asks a user that does
  not exist; Alice does both at once; Carol, who holds 25, asks to hand 20 to Bob.\<close>

theorem request_transfer_outcomes_witness:
  "get_current_user ledger0 ''alice'' = Inr alice \<and>
   get_current_user ledger0 ''carol'' = Inr carol \<and>
   balance_of ledger0 ''alice'' = Some (Finite 10) \<and> balance_of ledger0 ''carol'' = Some (Finite 25) \<and>
   create_transfer_request \<lparr>tr_to_user_id = ''bob'', tr_amount = Finite 150, tr_reason = ''rent''\<rparr>
       alice ''t4'' 30 ledger0 =
     (Inl (HTTPException 400 ''Insufficient cash balance''), ledger0) \<and>
   find_one (\<lambda>u. u_id u = ''zed'') (users ledger0) = None \<and>
   create_transfer_request \<lparr>tr_to_user_id = ''zed'', tr_amount = Finite 20, tr_reason = ''rent''\<rparr>
       carol ''t4'' 30 ledger0 =
     (Inl (HTTPException 404 ''Recipient not found''), ledger0) \<and>
   create_transfer_request \<lparr>tr_to_user_id = ''zed'', tr_amount = Finite 150, tr_reason = ''rent''\<rparr>
       alice ''t4'' 30 ledger0 =
     (Inl (HTTPException 400 ''Insufficient cash balance''), ledger0) \<and>
   find_one (\<lambda>u. u_id u = ''bob'') (users ledger0) = Some bob \<and>
   create_transfer_request \<lparr>tr_to_user_id = ''bob'', tr_amount = Finite 20, tr_reason = ''rent''\<rparr>
       carol ''t4'' 30 ledger0 =
     (Inr \<lparr>t_id = ''t4'', t_from_user_id = ''carol'', t_from_user_name = ''Carol'',
           t_to_user_id = ''bob'', t_to_user_name = ''Bob'', t_amount = Finite 20,
           t_reason = ''rent'', t_status = ''pending'', t_created_at = 30,
           t_approved_at = None\<rparr>,
      ledger0\<lparr>transfers := [t1, t2, t3,
         \<lparr>t_id = ''t4'', t_from_user_id = ''carol'', t_from_user_name = ''Carol'',
           t_to_user_id = ''bob'', t_to_user_name = ''Bob'', t_amount = Finite 20,
           t_reason = ''rent'', t_status = ''pending'', t_created_at = 30,
           t_approved_at = None\<rparr>]\<rparr>) \<and>
   balance_of (snd (create_transfer_request
       \<lparr>tr_to_user_id = ''bob'', tr_amount = Finite 20, tr_reason = ''rent''\<rparr> carol ''t4'' 30 ledger0))
     ''carol'' = Some (Finite 25)"
proof -
  have a: "get_current_user ledger0 ''alice'' = Inr alice"
    by (simp add: ledger0_defs eval_defs)
  have c: "get_current_user ledger0 ''carol'' = Inr carol"
    by (simp add: ledger0_defs eval_defs)
  have ba: "get_cash_balance alice = Finite 10" by (simp add: alice_def get_cash_balance_def)
  have bc: "get_cash_balance carol = Finite 25" by (simp add: carol_def get_cash_balance_def)
  have z: "find_one (\<lambda>u. u_id u = ''zed'') (users ledger0) = None"
    by (simp add: ledger0_defs eval_defs)
  have b: "find_one (\<lambda>u. u_id u = ''bob'') (users ledger0) = Some bob"
    by (simp add: ledger0_defs eval_defs)
  have ts: "transfers ledger0 = [t1, t2, t3]" by (simp add: ledger0_def)
  have nm: "u_name carol = ''Carol''" "u_name bob = ''Bob''" by (simp_all add: carol_def bob_def)
  let ?ok = "create_transfer_request
       \<lparr>tr_to_user_id = ''bob'', tr_amount = Finite 20, tr_reason = ''rent''\<rparr> carol ''t4'' 30 ledger0"
  have ok: "?ok =
     (Inr \<lparr>t_id = ''t4'', t_from_user_id = ''carol'', t_from_user_name = ''Carol'',
           t_to_user_id = ''bob'', t_to_user_name = ''Bob'', t_amount = Finite 20,
           t_reason = ''rent'', t_status = ''pending'', t_created_at = 30,
           t_approved_at = None\<rparr>,
      ledger0\<lparr>transfers := [t1, t2, t3,
         \<lparr>t_id = ''t4'', t_from_user_id = ''carol'', t_from_user_name = ''Carol'',
           t_to_user_id = ''bob'', t_to_user_name = ''Bob'', t_amount = Finite 20,
           t_reason = ''rent'', t_status = ''pending'', t_created_at = 30,
           t_approved_at = None\<rparr>]\<rparr>)"
    using b bc nm ts current_user_id [OF c]
    by (simp add: create_transfer_request_def insert_one_def Let_def)
  note A = request_transfer_outcomes [OF a,
      of "\<lparr>tr_to_user_id = ''bob'', tr_amount = Finite 150, tr_reason = ''rent''\<rparr>" "''t4''" 30]
  note B = request_transfer_outcomes [OF c,
      of "\<lparr>tr_to_user_id = ''zed'', tr_amount = Finite 20, tr_reason = ''rent''\<rparr>" "''t4''" 30]
  note C = request_transfer_outcomes [OF a,
      of "\<lparr>tr_to_user_id = ''zed'', tr_amount = Finite 150, tr_reason = ''rent''\<rparr>" "''t4''" 30]
  note D = request_transfer_outcomes [OF c,
      of "\<lparr>tr_to_user_id = ''bob'', tr_amount = Finite 20, tr_reason = ''rent''\<rparr>" "''t4''" 30]
  have r1: "create_transfer_request \<lparr>tr_to_user_id = ''bob'', tr_amount = Finite 150, tr_reason = ''rent''\<rparr>
       alice ''t4'' 30 ledger0 = (Inl (HTTPException 400 ''Insufficient cash balance''), ledger0)"
    using A ba by simp
  have r2: "create_transfer_request \<lparr>tr_to_user_id = ''zed'', tr_amount = Finite 20, tr_reason = ''rent''\<rparr>
       carol ''t4'' 30 ledger0 = (Inl (HTTPException 404 ''Recipient not found''), ledger0)"
    using B bc z by simp
  have r3: "create_transfer_request \<lparr>tr_to_user_id = ''zed'', tr_amount = Finite 150, tr_reason = ''rent''\<rparr>
       alice ''t4'' 30 ledger0 = (Inl (HTTPException 400 ''Insufficient cash balance''), ledger0)"
    using C ba by simp
  have b1: "balance_of ledger0 ''alice'' = Some (Finite 10)" using A ba by simp
  have b2: "balance_of ledger0 ''carol'' = Some (Finite 25)" using B bc by simp
  from D have frame: "\<And>t d'. ?ok = (Inr t, d') \<Longrightarrow>
      balance_of d' ''carol'' = balance_of ledger0 ''carol''"
    by blast
  have r4: "balance_of (snd ?ok) ''carol'' = Some (Finite 25)"
    using frame [OF ok] b2 by (simp add: ok)
  show ?thesis using a c b1 b2 r1 z r2 r3 b ok r4 by simp
qed

text \<open>
  Claim C5, as the code has it. The handler never looks at the sign of the amount. A
  request with an amount that is zero or negative, not above the sender's balance and
  addressed to an existing user succeeds and stores a pending transfer with that amount.
  The only failures are the two of the handler, 400 for an insufficient balance and 404
  for a missing recipient, and a failing request stores nothing. The stored amount is the
  requested one, so the stored transfers keep positive amounts as long as the requested
  amount is positive.
\<close>

theorem request_transfer_no_sign_check:
  "(tr_amount transfer_data \<le> 0 \<and> tr_amount transfer_data \<le> get_cash_balance current_user \<and>
    find_one (\<lambda>u. u_id u = tr_to_user_id transfer_data) (users d) = Some to_user \<longrightarrow>
      (\<exists>t. create_transfer_request transfer_data current_user transfer_id now d =
             (Inr t, d\<lparr>transfers := transfers d @ [t]\<rparr>) \<and>
           t_amount t = tr_amount transfer_data \<and> t_status t = ''pending'')) \<and>
   (\<forall>e. fst (create_transfer_request transfer_data current_user transfer_id now d) = Inl e \<longrightarrow>
      snd (create_transfer_request transfer_data current_user transfer_id now d) = d \<and>
      (e = HTTPException 400 ''Insufficient cash balance'' \<and>
         get_cash_balance current_user < tr_amount transfer_data \<or>
       e = HTTPException 404 ''Recipient not found'' \<and>
         find_one (\<lambda>u. u_id u = tr_to_user_id transfer_data) (users d) = None)) \<and>
   ((\<forall>t \<in> set (transfers d). 0 < t_amount t) \<and> 0 < tr_amount transfer_data \<longrightarrow>
      (\<forall>t \<in> set (transfers
          (snd (create_transfer_request transfer_data current_user transfer_id now d))).
         0 < t_amount t))"
  by (auto simp: create_transfer_request_def insert_one_def Let_def split: option.splits
        dest: le_double_not_less)

text \<open>On the example ledger: Alice asks to hand \<open>-5\<close> to Bob; Alice asks for more than
  she holds; Carol asks to hand 20 to Bob.\<close>

theorem request_transfer_no_sign_check_witness:
  "Finite (- 5) \<le> (0 :: double) \<and> Finite (- 5) \<le> get_cash_balance alice \<and>
   find_one (\<lambda>u. u_id u = ''bob'') (users ledger0) = Some bob \<and>
   create_transfer_request \<lparr>tr_to_user_id = ''bob'', tr_amount = Finite (- 5), tr_reason = ''rent''\<rparr>
       alice ''t4'' 30 ledger0 =
     (Inr \<lparr>t_id = ''t4'', t_from_user_id = ''alice'', t_from_user_name = ''Alice'',
           t_to_user_id = ''bob'', t_to_user_name = ''Bob'', t_amount = Finite (- 5),
           t_reason = ''rent'', t_status = ''pending'', t_created_at = 30,
           t_approved_at = None\<rparr>,
      ledger0\<lparr>transfers := transfers ledger0 @
        [\<lparr>t_id = ''t4'', t_from_user_id = ''alice'', t_from_user_name = ''Alice'',
           t_to_user_id = ''bob'', t_to_user_name = ''Bob'', t_amount = Finite (- 5),
           t_reason = ''rent'', t_status = ''pending'', t_created_at = 30,
           t_approved_at = None\<rparr>]\<rparr>) \<and>
   fst (create_transfer_request \<lparr>tr_to_user_id = ''bob'', tr_amount = Finite 150, tr_reason = ''rent''\<rparr>
       alice ''t4'' 30 ledger0) = Inl (HTTPException 400 ''Insufficient cash balance'') \<and>
   snd (create_transfer_request \<lparr>tr_to_user_id = ''bob'', tr_amount = Finite 150, tr_reason = ''rent''\<rparr>
       alice ''t4'' 30 ledger0) = ledger0 \<and>
   list_all (\<lambda>t. 0 < t_amount t) (transfers ledger0) \<and> (0 :: double) < Finite 20 \<and>
   list_all (\<lambda>t. 0 < t_amount t) (transfers (snd (create_transfer_request
       \<lparr>tr_to_user_id = ''bob'', tr_amount = Finite 20, tr_reason = ''rent''\<rparr> carol ''t4'' 30 ledger0)))"
proof -
  have ba: "get_cash_balance alice = Finite 10" by (simp add: alice_def get_cash_balance_def)
  have b: "find_one (\<lambda>u. u_id u = ''bob'') (users ledger0) = Some bob"
    by (simp add: ledger0_defs eval_defs)
  have pos: "\<forall>t \<in> set (transfers ledger0). 0 < t_amount t"
    by (simp add: ledger0_defs double_eval)
  have neg: "create_transfer_request \<lparr>tr_to_user_id = ''bob'', tr_amount = Finite (- 5), tr_reason = ''rent''\<rparr>
       alice ''t4'' 30 ledger0 =
     (Inr \<lparr>t_id = ''t4'', t_from_user_id = ''alice'', t_from_user_name = ''Alice'',
           t_to_user_id = ''bob'', t_to_user_name = ''Bob'', t_amount = Finite (- 5),
           t_reason = ''rent'', t_status = ''pending'', t_created_at = 30,
           t_approved_at = None\<rparr>,
      ledger0\<lparr>transfers := transfers ledger0 @
        [\<lparr>t_id = ''t4'', t_from_user_id = ''alice'', t_from_user_name = ''Alice'',
           t_to_user_id = ''bob'', t_to_user_name = ''Bob'', t_amount = Finite (- 5),
           t_reason = ''rent'', t_status = ''pending'', t_created_at = 30,
           t_approved_at = None\<rparr>]\<rparr>)"
    using b ba by (simp add: create_transfer_request_def insert_one_def Let_def alice_def bob_def)
  have big: "fst (create_transfer_request
       \<lparr>tr_to_user_id = ''bob'', tr_amount = Finite 150, tr_reason = ''rent''\<rparr> alice ''t4'' 30 ledger0) =
     Inl (HTTPException 400 ''Insufficient cash balance'')"
    using ba by (simp add: create_transfer_request_def)
  note A = request_transfer_no_sign_check [of
      "\<lparr>tr_to_user_id = ''bob'', tr_amount = Finite 150, tr_reason = ''rent''\<rparr>" alice ledger0 bob "''t4''" 30]
  note B = request_transfer_no_sign_check [of
      "\<lparr>tr_to_user_id = ''bob'', tr_amount = Finite 20, tr_reason = ''rent''\<rparr>" carol ledger0 bob "''t4''" 30]
  have r1: "snd (create_transfer_request
       \<lparr>tr_to_user_id = ''bob'', tr_amount = Finite 150, tr_reason = ''rent''\<rparr> alice ''t4'' 30 ledger0) =
     ledger0"
    using A big by blast
  have r2: "\<forall>t \<in> set (transfers (snd (create_transfer_request
       \<lparr>tr_to_user_id = ''bob'', tr_amount = Finite 20, tr_reason = ''rent''\<rparr> carol ''t4'' 30 ledger0))).
       0 < t_amount t"
    using B pos by (simp add: double_eval)
  show ?thesis using ba b neg big r1 r2 pos by (simp add: list_all_iff double_eval)
qed

text \<open>
  Claim C5 as written fails: Alice's request to hand \<open>-5\<close> to Bob is not refused, and
  the transfers then hold a document with amount \<open>-5\<close>.
\<close>

theorem negative_request_counterexample:
  "get_current_user ledger0 ''alice'' = Inr alice \<and>
   tr_amount \<lparr>tr_to_user_id = ''bob'', tr_amount = Finite (- 5), tr_reason = ''rent''\<rparr> \<le> 0 \<and>
   fst (create_transfer_request \<lparr>tr_to_user_id = ''bob'', tr_amount = Finite (- 5), tr_reason = ''rent''\<rparr>
       alice ''t4'' 30 ledger0) =
     Inr \<lparr>t_id = ''t4'', t_from_user_id = ''alice'', t_from_user_name = ''Alice'',
           t_to_user_id = ''bob'', t_to_user_name = ''Bob'', t_amount = Finite (- 5),
           t_reason = ''rent'', t_status = ''pending'', t_created_at = 30,
           t_approved_at = None\<rparr> \<and>
   map t_amount (transfers (snd (create_transfer_request
       \<lparr>tr_to_user_id = ''bob'', tr_amount = Finite (- 5), tr_reason = ''rent''\<rparr> alice ''t4'' 30 ledger0))) =
     [Finite 60, Finite 5, Finite 7, Finite (- 5)]"
  by (simp add: create_transfer_request_def ledger0_defs eval_defs double_eval)


subsection \<open>Sales and credit payments\<close>

lemma char_of_digits:
  "char_of (49::nat) = CHR ''1''" "char_of (50::nat) = CHR ''2''" "char_of (51::nat) = CHR ''3''"
  by code_simp+

lemma decimal_examples: "decimal 3 = ''3''" "decimal 12 = ''12''"
  by (simp_all add: decimal.simps [of 3] decimal.simps [of 12] decimal.simps [of "Suc 0"]
        char_of_digits)

lemma format_06d_examples: "format_06d 3 = ''000003''" "format_06d 12 = ''000012''"
  unfolding format_06d_def decimal_examples by (simp_all add: numeral_eq_Suc)

text \<open>
  Claim C7, as the code has it. \<^verbatim>\<open>create_sale\<close> always succeeds and appends one sale
  document, collected by the acting user. For the payment type \<^verbatim>\<open>cash\<close> the document
  is \<^verbatim>\<open>settled\<close> with the paid amount equal to the total, and the acting user's
  balance becomes the old one plus the total, the sum taken in double arithmetic, while
  every other balance stays; where the exact sum is a double, the balance has grown by
  exactly the total. For \<^verbatim>\<open>credit\<close> the document is \<^verbatim>\<open>pending\<close> with nothing
  paid, and the users are untouched.
\<close>

theorem create_sale_cash_and_credit:
  assumes auth: "get_current_user d uid = Inr current_user"
    and call: "create_sale sale_data current_user sale_id now d = (r, d')"
  shows "\<exists>s. r = Inr s \<and> sales d' = sales d @ [s] \<and>
    s_total_amount s = sc_total_amount sale_data \<and>
    s_payment_type s = sc_payment_type sale_data \<and> s_collected_by s = uid \<and>
    (sc_payment_type sale_data = ''cash'' \<longrightarrow>
       s_status s = ''settled'' \<and> s_paid_amount s = sc_total_amount sale_data \<and>
       balance_of d uid = Some (get_cash_balance current_user) \<and>
       (\<forall>u. u \<noteq> uid \<longrightarrow> balance_of d' u = balance_of d u)) \<and>
    (sc_payment_type sale_data = ''cash'' \<and> is_double (sc_total_amount sale_data) \<longrightarrow>
       balance_of d' uid = Some (get_cash_balance current_user + sc_total_amount sale_data) \<and>
       (\<forall>b t. get_cash_balance current_user = Finite b \<and> sc_total_amount sale_data = Finite t \<and>
          is_double (Finite (b + t)) \<longrightarrow> balance_of d' uid = Some (Finite (b + t)))) \<and>
    (sc_payment_type sale_data = ''credit'' \<longrightarrow>
       s_status s = ''pending'' \<and> s_paid_amount s = 0 \<and> users d' = users d \<and>
       (\<forall>u. balance_of d' u = balance_of d u))"
proof -
  have cu: "u_id current_user = uid" using auth by (rule current_user_id)
  have bal: "balance_of d uid = Some (get_cash_balance current_user)"
    using auth by (rule current_user_balance)
  show ?thesis
  proof (cases "sc_payment_type sale_data = ''cash''")
    case True
    then show ?thesis
      using call cu bal
      by (auto simp: create_sale_def Let_def insert_one_def balance_of_def
            find_user_inc_same find_user_inc_other get_cash_balance_inc
            option.map_comp comp_def)
  next
    case False
    then show ?thesis
      using call cu
      by (auto simp: create_sale_def Let_def insert_one_def balance_of_def)
  qed
qed

text \<open>Scenario A on the example ledger: Bob holds 0, records a cash sale of 100 and holds
  100; the same sale on credit is pending, with nothing paid, and changes no user.\<close>

theorem create_sale_cash_and_credit_witness:
  "get_current_user ledger0 ''bob'' = Inr bob \<and> balance_of ledger0 ''bob'' = Some (Finite 0) \<and>
   is_double (Finite 100) \<and> is_double (Finite (0 + 100)) \<and>
   s_status (projr (fst (create_sale
     \<lparr>sc_customer_name = ''Finn'', sc_items = [], sc_total_amount = Finite 100,
      sc_payment_type = ''cash'', sc_collected_by = ''bob'', sc_notes = None\<rparr>
     bob ''s3'' 30 ledger0))) = ''settled'' \<and>
   s_paid_amount (projr (fst (create_sale
     \<lparr>sc_customer_name = ''Finn'', sc_items = [], sc_total_amount = Finite 100,
      sc_payment_type = ''cash'', sc_collected_by = ''bob'', sc_notes = None\<rparr>
     bob ''s3'' 30 ledger0))) = Finite 100 \<and>
   balance_of (snd (create_sale
     \<lparr>sc_customer_name = ''Finn'', sc_items = [], sc_total_amount = Finite 100,
      sc_payment_type = ''cash'', sc_collected_by = ''bob'', sc_notes = None\<rparr>
     bob ''s3'' 30 ledger0)) ''bob'' = Some (Finite 100) \<and>
   balance_of (snd (create_sale
     \<lparr>sc_customer_name = ''Finn'', sc_items = [], sc_total_amount = Finite 100,
      sc_payment_type = ''cash'', sc_collected_by = ''bob'', sc_notes = None\<rparr>
     bob ''s3'' 30 ledger0)) ''alice'' = balance_of ledger0 ''alice'' \<and>
   s_status (projr (fst (create_sale
     \<lparr>sc_customer_name = ''Finn'', sc_items = [], sc_total_amount = Finite 100,
      sc_payment_type = ''credit'', sc_collected_by = ''bob'', sc_notes = None\<rparr>
     bob ''s3'' 30 ledger0))) = ''pending'' \<and>
   s_paid_amount (projr (fst (create_sale
     \<lparr>sc_customer_name = ''Finn'', sc_items = [], sc_total_amount = Finite 100,
      sc_payment_type = ''credit'', sc_collected_by = ''bob'', sc_notes = None\<rparr>
     bob ''s3'' 30 ledger0))) = Finite 0 \<and>
   users (snd (create_sale
     \<lparr>sc_customer_name = ''Finn'', sc_items = [], sc_total_amount = Finite 100,
      sc_payment_type = ''credit'', sc_collected_by = ''bob'', sc_notes = None\<rparr>
     bob ''s3'' 30 ledger0)) = users ledger0"
proof -
  let ?cash = "\<lparr>sc_customer_name = ''Finn'', sc_items = [], sc_total_amount = Finite 100,
      sc_payment_type = ''cash'', sc_collected_by = ''bob'', sc_notes = None\<rparr>"
  let ?credit = "\<lparr>sc_customer_name = ''Finn'', sc_items = [], sc_total_amount = Finite 100,
      sc_payment_type = ''credit'', sc_collected_by = ''bob'', sc_notes = None\<rparr>"
  let ?c1 = "create_sale ?cash bob ''s3'' 30 ledger0"
  let ?c2 = "create_sale ?credit bob ''s3'' 30 ledger0"
  have auth: "get_current_user ledger0 ''bob'' = Inr bob"
    by (simp add: ledger0_defs eval_defs)
  have bb: "get_cash_balance bob = Finite 0" by (simp add: bob_def get_cash_balance_def)
  have dbl: "is_double (Finite 100)" "is_double (Finite (0 + 100))"
    by (simp_all add: double_eval)
  have e1: "?c1 = (fst ?c1, snd ?c1)" by simp
  have e2: "?c2 = (fst ?c2, snd ?c2)" by simp
  from create_sale_cash_and_credit [OF auth e1] obtain s where
    s: "fst ?c1 = Inr s" "s_status s = ''settled''" "s_paid_amount s = Finite 100"
      "balance_of ledger0 ''bob'' = Some (Finite 0)"
      "balance_of (snd ?c1) ''alice'' = balance_of ledger0 ''alice''"
      "\<forall>b t. get_cash_balance bob = Finite b \<and> Finite 100 = Finite t \<and>
          is_double (Finite (b + t)) \<longrightarrow> balance_of (snd ?c1) ''bob'' = Some (Finite (b + t))"
    using bb dbl by auto
  from s(6) bb dbl have b1: "balance_of (snd ?c1) ''bob'' = Some (Finite 100)"
    by auto
  from create_sale_cash_and_credit [OF auth e2] obtain s' where
    s': "fst ?c2 = Inr s'" "s_status s' = ''pending''" "s_paid_amount s' = 0"
      "users (snd ?c2) = users ledger0"
    by auto
  show ?thesis using auth dbl s b1 s' by (simp add: zero_double_def)
qed

text \<open>
  Claim C7 as written fails where the sum is not a double: Dora holds \<^verbatim>\<open>2^53\<close> and
  records a cash sale of 1; the sum is rounded back to \<^verbatim>\<open>2^53\<close>, and her balance is
  what it was.
\<close>

theorem cash_sale_not_exact_counterexample:
  "get_current_user ledger1 ''dora'' = Inr dora \<and>
   balance_of ledger1 ''dora'' = Some (Finite 9007199254740992) \<and>
   s_status (projr (fst (create_sale
     \<lparr>sc_customer_name = ''Finn'', sc_items = [], sc_total_amount = Finite 1,
      sc_payment_type = ''cash'', sc_collected_by = ''dora'', sc_notes = None\<rparr>
     dora ''s5'' 30 ledger1))) = ''settled'' \<and>
   s_paid_amount (projr (fst (create_sale
     \<lparr>sc_customer_name = ''Finn'', sc_items = [], sc_total_amount = Finite 1,
      sc_payment_type = ''cash'', sc_collected_by = ''dora'', sc_notes = None\<rparr>
     dora ''s5'' 30 ledger1))) = Finite 1 \<and>
   balance_of (snd (create_sale
     \<lparr>sc_customer_name = ''Finn'', sc_items = [], sc_total_amount = Finite 1,
      sc_payment_type = ''cash'', sc_collected_by = ''dora'', sc_notes = None\<rparr>
     dora ''s5'' 30 ledger1)) ''dora'' = Some (Finite 9007199254740992)"
  by (simp add: create_sale_def ledger1_defs eval_defs double_eval)

text \<open>
  Claim C6, as the code has it. A payment on a sale that does not exist raises 404
  (\<^verbatim>\<open>Sale not found\<close>) and a payment on a sale that is not a credit sale raises 400
  (\<^verbatim>\<open>Sale is not a credit sale\<close>); both leave the database as it is. A payment of any
  amount on a credit sale succeeds: exactly one payment document is appended, the sale's
  paid amount becomes the previous one plus the amount, its status becomes
  \<^verbatim>\<open>settled\<close> when the new paid amount reaches the total and \<^verbatim>\<open>partial\<close> otherwise,
  no other sale changes, the collector's balance becomes the old one plus the amount and
  no other balance moves. Both sums are taken in double arithmetic; where the exact sums
  are doubles, the paid amount and the balance have grown by exactly the amount. Nothing
  bounds the amount, so a payment above what is owed is accepted and settles the sale.
\<close>

theorem record_payment_effects:
  assumes auth: "get_current_user d uid = Inr current_user"
  shows "(find_one (\<lambda>s. s_id s = cp_sale_id payment_data) (sales d) = None \<longrightarrow>
      record_credit_payment payment_data current_user payment_id now d =
        (Inl (HTTPException 404 ''Sale not found''), d)) \<and>
   (\<forall>sale. find_one (\<lambda>s. s_id s = cp_sale_id payment_data) (sales d) = Some sale \<and>
      s_payment_type sale \<noteq> ''credit'' \<longrightarrow>
      record_credit_payment payment_data current_user payment_id now d =
        (Inl (HTTPException 400 ''Sale is not a credit sale''), d)) \<and>
   (\<forall>sale. find_one (\<lambda>s. s_id s = cp_sale_id payment_data) (sales d) = Some sale \<and>
      s_payment_type sale = ''credit'' \<and> is_double (cp_amount payment_data) \<longrightarrow>
      (\<exists>p d'. record_credit_payment payment_data current_user payment_id now d = (Inr p, d') \<and>
         credit_payments d' = credit_payments d @ [p] \<and>
         p_id p = payment_id \<and> p_sale_id p = cp_sale_id payment_data \<and>
         p_amount p = cp_amount payment_data \<and> p_collected_by p = uid \<and>
         find_one (\<lambda>s. s_id s = cp_sale_id payment_data) (sales d') =
           Some (sale\<lparr>s_paid_amount := s_paid_amount sale + cp_amount payment_data,
                      s_status := (if s_paid_amount sale + cp_amount payment_data
                                        \<ge> s_total_amount sale
                                   then ''settled'' else ''partial'')\<rparr>) \<and>
         (\<forall>sid. sid \<noteq> cp_sale_id payment_data \<longrightarrow>
            find_one (\<lambda>s. s_id s = sid) (sales d') = find_one (\<lambda>s. s_id s = sid) (sales d)) \<and>
         length (sales d') = length (sales d) \<and>
         balance_of d uid = Some (get_cash_balance current_user) \<and>
         balance_of d' uid = Some (get_cash_balance current_user + cp_amount payment_data) \<and>
         (\<forall>q b a. s_paid_amount sale = Finite q \<and> get_cash_balance current_user = Finite b \<and>
            cp_amount payment_data = Finite a \<and>
            is_double (Finite (q + a)) \<and> is_double (Finite (b + a)) \<longrightarrow>
            map_option s_paid_amount
              (find_one (\<lambda>s. s_id s = cp_sale_id payment_data) (sales d')) =
              Some (Finite (q + a)) \<and>
            balance_of d' uid = Some (Finite (b + a))) \<and>
         (\<forall>u. u \<noteq> uid \<longrightarrow> balance_of d' u = balance_of d u) \<and>
         transfers d' = transfers d))"
proof -
  have cu: "u_id current_user = uid" using auth by (rule current_user_id)
  have bal: "balance_of d uid = Some (get_cash_balance current_user)"
    using auth by (rule current_user_balance)
  have same: "find_one (\<lambda>s. s_id s = k)
       (update_one (\<lambda>s. s_id s = k) (\<lambda>s. s\<lparr>s_paid_amount := a, s_status := st\<rparr>) ss) =
     map_option (\<lambda>s. s\<lparr>s_paid_amount := a, s_status := st\<rparr>) (find_one (\<lambda>s. s_id s = k) ss)"
    for k a st and ss :: "sale list"
    by (rule find_one_update_one_same) simp
  have other: "k' \<noteq> k \<Longrightarrow> find_one (\<lambda>s. s_id s = k')
       (update_one (\<lambda>s. s_id s = k) (\<lambda>s. s\<lparr>s_paid_amount := a, s_status := st\<rparr>) ss) =
     find_one (\<lambda>s. s_id s = k') ss"
    for k k' a st and ss :: "sale list"
    by (rule find_one_update_one_other) simp
  have len: "length (update_one P f xs) = length xs" for P f and xs :: "sale list"
    by (induction xs) auto
  show ?thesis
    using cu bal
    by (auto simp: record_credit_payment_def Let_def insert_one_def same other len
          balance_of_def find_user_inc_same find_user_inc_other get_cash_balance_inc
          option.map_comp comp_def)
qed

text \<open>On the example ledger, with Carol collecting: an unknown sale; the cash sale
  \<open>s2\<close>; 80 paid on the credit sale \<open>s1\<close> of 200 (partial, Carol goes from 25 to 105);
  250 paid on it instead (settled, with 250 paid on a total of 200).\<close>

theorem record_payment_effects_witness:
  "get_current_user ledger0 ''carol'' = Inr carol \<and>
   balance_of ledger0 ''carol'' = Some (Finite 25) \<and>
   find_one (\<lambda>s. s_id s = ''s9'') (sales ledger0) = None \<and>
   record_credit_payment
       \<lparr>cp_sale_id = ''s9'', cp_amount = Finite 80, cp_collected_by = ''carol'', cp_notes = None\<rparr>
       carol ''p1'' 30 ledger0 = (Inl (HTTPException 404 ''Sale not found''), ledger0) \<and>
   find_one (\<lambda>s. s_id s = ''s2'') (sales ledger0) = Some s2 \<and> s_payment_type s2 \<noteq> ''credit'' \<and>
   record_credit_payment
       \<lparr>cp_sale_id = ''s2'', cp_amount = Finite 80, cp_collected_by = ''carol'', cp_notes = None\<rparr>
       carol ''p1'' 30 ledger0 = (Inl (HTTPException 400 ''Sale is not a credit sale''), ledger0) \<and>
   find_one (\<lambda>s. s_id s = ''s1'') (sales ledger0) = Some s1 \<and> s_payment_type s1 = ''credit'' \<and>
   s_paid_amount s1 = Finite 0 \<and> s_total_amount s1 = Finite 200 \<and>
   is_double (Finite 80) \<and> is_double (Finite 250) \<and>
   find_one (\<lambda>s. s_id s = ''s1'') (sales (snd (record_credit_payment
       \<lparr>cp_sale_id = ''s1'', cp_amount = Finite 80, cp_collected_by = ''carol'', cp_notes = None\<rparr>
       carol ''p1'' 30 ledger0))) =
     Some (s1\<lparr>s_paid_amount := Finite 80, s_status := ''partial''\<rparr>) \<and>
   balance_of (snd (record_credit_payment
       \<lparr>cp_sale_id = ''s1'', cp_amount = Finite 80, cp_collected_by = ''carol'', cp_notes = None\<rparr>
       carol ''p1'' 30 ledger0)) ''carol'' = Some (Finite 105) \<and>
   map p_amount (credit_payments (snd (record_credit_payment
       \<lparr>cp_sale_id = ''s1'', cp_amount = Finite 80, cp_collected_by = ''carol'', cp_notes = None\<rparr>
       carol ''p1'' 30 ledger0))) = [Finite 80] \<and>
   find_one (\<lambda>s. s_id s = ''s1'') (sales (snd (record_credit_payment
       \<lparr>cp_sale_id = ''s1'', cp_amount = Finite 250, cp_collected_by = ''carol'', cp_notes = None\<rparr>
       carol ''p1'' 30 ledger0))) =
     Some (s1\<lparr>s_paid_amount := Finite 250, s_status := ''settled''\<rparr>) \<and>
   balance_of (snd (record_credit_payment
       \<lparr>cp_sale_id = ''s1'', cp_amount = Finite 250, cp_collected_by = ''carol'', cp_notes = None\<rparr>
       carol ''p1'' 30 ledger0)) ''carol'' = Some (Finite 275)"
proof -
  let ?pay = "\<lambda>sid a. \<lparr>cp_sale_id = sid, cp_amount = a, cp_collected_by = ''carol'',
      cp_notes = None\<rparr>"
  let ?c80 = "record_credit_payment (?pay ''s1'' (Finite 80)) carol ''p1'' 30 ledger0"
  let ?c250 = "record_credit_payment (?pay ''s1'' (Finite 250)) carol ''p1'' 30 ledger0"
  have auth: "get_current_user ledger0 ''carol'' = Inr carol"
    by (simp add: ledger0_defs eval_defs)
  have bc: "get_cash_balance carol = Finite 25" by (simp add: carol_def get_cash_balance_def)
  have f9: "find_one (\<lambda>s. s_id s = ''s9'') (sales ledger0) = None"
    by (simp add: ledger0_defs eval_defs)
  have f2: "find_one (\<lambda>s. s_id s = ''s2'') (sales ledger0) = Some s2"
    by (simp add: ledger0_defs eval_defs)
  have f1: "find_one (\<lambda>s. s_id s = ''s1'') (sales ledger0) = Some s1"
    by (simp add: ledger0_defs eval_defs)
  have n2: "s_payment_type s2 \<noteq> ''credit''" by (simp add: s2_def)
  have c1: "s_payment_type s1 = ''credit''" "s_paid_amount s1 = Finite 0"
      "s_total_amount s1 = Finite 200"
    by (simp_all add: s1_def)
  have dbl: "is_double (Finite 80)" "is_double (Finite 250)" by (simp_all add: double_eval)
  have ps: "credit_payments ledger0 = []" by (simp add: ledger0_def)
  note A = record_payment_effects [OF auth, of "?pay ''s9'' (Finite 80)" "''p1''" 30]
  note B = record_payment_effects [OF auth, of "?pay ''s2'' (Finite 80)" "''p1''" 30]
  note C = record_payment_effects [OF auth, of "?pay ''s1'' (Finite 80)" "''p1''" 30]
  note D = record_payment_effects [OF auth, of "?pay ''s1'' (Finite 250)" "''p1''" 30]
  have r1: "record_credit_payment (?pay ''s9'' (Finite 80)) carol ''p1'' 30 ledger0 =
      (Inl (HTTPException 404 ''Sale not found''), ledger0)"
    using A f9 by simp
  have r2: "record_credit_payment (?pay ''s2'' (Finite 80)) carol ''p1'' 30 ledger0 =
      (Inl (HTTPException 400 ''Sale is not a credit sale''), ledger0)"
    using B f2 n2 by simp
  have b0: "balance_of ledger0 ''carol'' = Some (Finite 25)"
    using auth bc by (simp add: current_user_balance)
  from C f1 c1 bc ps dbl have r3:
    "find_one (\<lambda>s. s_id s = ''s1'') (sales (snd ?c80)) =
       Some (s1\<lparr>s_paid_amount := Finite 80, s_status := ''partial''\<rparr>)"
    "balance_of (snd ?c80) ''carol'' = Some (Finite 105)"
    "map p_amount (credit_payments (snd ?c80)) = [Finite 80]"
    by (auto simp: double_eval)
  from D f1 c1 bc dbl have r4:
    "find_one (\<lambda>s. s_id s = ''s1'') (sales (snd ?c250)) =
       Some (s1\<lparr>s_paid_amount := Finite 250, s_status := ''settled''\<rparr>)"
    "balance_of (snd ?c250) ''carol'' = Some (Finite 275)"
    by (auto simp: double_eval)
  show ?thesis using auth b0 f9 r1 f2 n2 r2 f1 c1 dbl r3 r4 by simp
qed

text \<open>
  Claim C6 as written fails where a sum is not a double. On the sale \<open>s4\<close>, with
  \<^verbatim>\<open>2^53\<close> paid on a total of \<^verbatim>\<open>2^53 + 4\<close>, Fay records a payment of 3: the paid
  amount stored is \<^verbatim>\<open>2^53 + 4\<close>, not the previous value plus 3, and the sale is
  \<^verbatim>\<open>settled\<close> although 1 is still owed. Dora, who holds \<^verbatim>\<open>2^53\<close>, records a
  payment of 1 instead: neither the paid amount nor her balance changes.
\<close>

theorem payment_not_exact_counterexample:
  "get_current_user ledger1 ''fay'' = Inr fay \<and> get_current_user ledger1 ''dora'' = Inr dora \<and>
   find_one (\<lambda>s. s_id s = ''s4'') (sales ledger1) = Some s4 \<and>
   s_payment_type s4 = ''credit'' \<and> s_paid_amount s4 = Finite 9007199254740992 \<and>
   s_total_amount s4 = Finite 9007199254740996 \<and>
   (9007199254740992 + 3 :: real) < 9007199254740996 \<and>
   find_one (\<lambda>s. s_id s = ''s4'') (sales (snd (record_credit_payment
       \<lparr>cp_sale_id = ''s4'', cp_amount = Finite 3, cp_collected_by = ''fay'', cp_notes = None\<rparr>
       fay ''p1'' 30 ledger1))) =
     Some (s4\<lparr>s_paid_amount := Finite 9007199254740996, s_status := ''settled''\<rparr>) \<and>
   balance_of ledger1 ''dora'' = Some (Finite 9007199254740992) \<and>
   find_one (\<lambda>s. s_id s = ''s4'') (sales (snd (record_credit_payment
       \<lparr>cp_sale_id = ''s4'', cp_amount = Finite 1, cp_collected_by = ''dora'', cp_notes = None\<rparr>
       dora ''p1'' 30 ledger1))) =
     Some (s4\<lparr>s_paid_amount := Finite 9007199254740992, s_status := ''partial''\<rparr>) \<and>
   balance_of (snd (record_credit_payment
       \<lparr>cp_sale_id = ''s4'', cp_amount = Finite 1, cp_collected_by = ''dora'', cp_notes = None\<rparr>
       dora ''p1'' 30 ledger1)) ''dora'' = Some (Finite 9007199254740992)"
  by (simp add: record_credit_payment_def ledger1_defs eval_defs double_eval)

subsection \<open>The status of a sale along a run\<close>















end
